theory Spec2Isabelle
  imports Complex_Main
begin

section \<open>Python values used by the config flow\<close>

text \<open>
  A Python \<^verbatim>\<open>str\<close> is modelled by \<^typ>\<open>string\<close>. One \<^typ>\<open>char\<close> stands for one code
  point in the range U+0000..U+00FF, so \<^term>\<open>length\<close> counts code points as Python's
  \<^verbatim>\<open>len\<close> does. The character classes below are the restrictions of Python's
  \<^verbatim>\<open>str.isdigit\<close>, \<^verbatim>\<open>str.isnumeric\<close> and \<^verbatim>\<open>str.isspace\<close> to that range.
  A Python \<^verbatim>\<open>float\<close> that is only stored and handed on is represented by its exact
  rational value.
\<close>

datatype pyval = VStr string | VInt int | VBool bool | VFloat rat

datatype py_exception = ValueError | KeyError string

type_synonym options = "string \<rightharpoonup> pyval"

subsection \<open>String methods\<close>

text \<open>\<^verbatim>\<open>s.replace(" ", "")\<close>: every U+0020 is removed, no other white space is.\<close>

definition replace_space :: "string \<Rightarrow> string" where
  "replace_space s = filter (\<lambda>c. c \<noteq> CHR '' '') s"

text \<open>\<^verbatim>\<open>s.split(",")\<close>: the result is never empty; \<^verbatim>\<open>"".split(",") == [""]\<close>.\<close>

fun split_comma :: "string \<Rightarrow> string list" where
  "split_comma [] = [[]]"
| "split_comma (c # cs) =
     (if c = CHR '','' then [] # split_comma cs
      else (case split_comma cs of
              t # ts \<Rightarrow> (c # t) # ts
            | [] \<Rightarrow> [[c]]))"

text \<open>\<^verbatim>\<open>",".join(xs)\<close>\<close>

fun join_comma :: "string list \<Rightarrow> string" where
  "join_comma [] = []"
| "join_comma [x] = x"
| "join_comma (x # y # ys) = x @ CHR '','' # join_comma (y # ys)"

text \<open>\<^verbatim>\<open>[s for s in raw.replace(" ", "").split(",") if s]\<close>, the first two lines of both
  validators.\<close>

definition tokens :: "string \<Rightarrow> string list" where
  "tokens raw = filter (\<lambda>s. s \<noteq> []) (split_comma (replace_space raw))"

definition is_decimal_char :: "char \<Rightarrow> bool" where
  "is_decimal_char c = (c \<in> set ''0123456789'')"

text \<open>\<^verbatim>\<open>str.isdigit\<close> also holds of the superscript digits U+00B2, U+00B3, U+00B9;
  \<^verbatim>\<open>str.isnumeric\<close> also of the vulgar fractions U+00BC, U+00BD, U+00BE. Both are false
  of the empty string.\<close>

definition is_digit_char :: "char \<Rightarrow> bool" where
  "is_digit_char c = (is_decimal_char c \<or> c \<in> set [CHR 0xB2, CHR 0xB3, CHR 0xB9])"

definition is_numeric_char :: "char \<Rightarrow> bool" where
  "is_numeric_char c = (is_digit_char c \<or> c \<in> set [CHR 0xBC, CHR 0xBD, CHR 0xBE])"

definition isdigit :: "string \<Rightarrow> bool" where
  "isdigit s = (s \<noteq> [] \<and> list_all is_digit_char s)"

definition isnumeric :: "string \<Rightarrow> bool" where
  "isnumeric s = (s \<noteq> [] \<and> list_all is_numeric_char s)"

definition is_space_char :: "char \<Rightarrow> bool" where
  "is_space_char c =
     (c \<in> set [CHR 0x09, CHR 0x0A, CHR 0x0B, CHR 0x0C, CHR 0x0D,
                CHR 0x1C, CHR 0x1D, CHR 0x1E, CHR 0x1F, CHR 0x20, CHR 0x85, CHR 0xA0])"

text \<open>\<^verbatim>\<open>s.strip()\<close>\<close>

definition strip :: "string \<Rightarrow> string" where
  "strip s = rev (dropWhile is_space_char (rev (dropWhile is_space_char s)))"

subsection \<open>Numbers from and to strings\<close>

definition digit_value :: "char \<Rightarrow> int" where
  "digit_value c = of_char c - 48"

definition decimal_value :: "string \<Rightarrow> int" where
  "decimal_value s = foldl (\<lambda>acc c. 10 * acc + digit_value c) 0 s"

text \<open>
  \<^verbatim>\<open>int(q)\<close> at its only call site, where \<^verbatim>\<open>q.isnumeric()\<close> holds: the conversion
  accepts decimal digits only, and raises \<^verbatim>\<open>ValueError\<close> on a superscript digit or a
  fraction character. (The signs, underscores and white space that \<^verbatim>\<open>int\<close> accepts
  elsewhere cannot occur in a numeric string. The interpreter's configurable limit on
  the number of digits of an integer literal is not modelled.)
\<close>

definition py_int :: "string \<Rightarrow> py_exception + int" where
  "py_int q = (if q \<noteq> [] \<and> list_all is_decimal_char q then Inr (decimal_value q)
               else Inl ValueError)"

text \<open>A double: a finite one is \<open>m \<cdot> 2\<^sup>p\<close>, kept as mantissa and exponent.\<close>

datatype pyfloat = Finite int int | Infinity

function bit_length :: "int \<Rightarrow> nat" where
  "bit_length n = (if n \<le> 0 then 0 else Suc (bit_length (n div 2)))"
  by pat_completeness auto
termination
  by (relation "measure nat") auto

declare bit_length.simps [simp del]

text \<open>Rounding the quotient \<open>a / b\<close> (\<open>0 \<le> a\<close>, \<open>0 < b\<close>) to the nearest integer, ties
  to even.\<close>

definition round_half_even :: "int \<Rightarrow> int \<Rightarrow> int" where
  "round_half_even a b =
     (let d = a div b; r = a mod b
      in if 2 * r < b then d else if b < 2 * r then d + 1 else if even d then d else d + 1)"

text \<open>\<open>\<lfloor>log\<^sub>2 (a / b)\<rfloor>\<close> for positive \<open>a\<close> and \<open>b\<close>.\<close>

definition floor_log2 :: "int \<Rightarrow> int \<Rightarrow> int" where
  "floor_log2 a b =
     (let e = int (bit_length a) - int (bit_length b)
      in if (if 0 \<le> e then b * 2 ^ nat e \<le> a else b \<le> a * 2 ^ nat (- e)) then e else e - 1)"

text \<open>
  The double nearest to \<open>a / b\<close> (round to nearest, ties to even, as the correctly
  rounded conversion of \<^verbatim>\<open>float(str)\<close> does): 53 significant bits, the exponent of the
  last place never below \<open>-1074\<close> (subnormal numbers), overflow to infinity from
  \<open>2\<^sup>1\<^sup>0\<^sup>2\<^sup>4\<close> on.
\<close>

definition nearest_double :: "int \<Rightarrow> int \<Rightarrow> pyfloat" where
  "nearest_double a b =
     (if a = 0 then Finite 0 0
      else let p = max (floor_log2 a b - 52) (- 1074);
               m = (if 0 \<le> p then round_half_even a (b * 2 ^ nat p)
                    else round_half_even (a * 2 ^ nat (- p)) b)
           in if 0 \<le> p \<and> 2 ^ 1024 \<le> m * 2 ^ nat p then Infinity else Finite m p)"

text \<open>
  \<^verbatim>\<open>float(h)\<close> at its only call site, where \<^verbatim>\<open>h.replace(".", "", 1).isdigit()\<close> holds:
  \<open>h\<close> is made of digit characters and at most one point. The conversion accepts decimal
  digits only; a point may come first or last.
\<close>

definition py_float :: "string \<Rightarrow> py_exception + pyfloat" where
  "py_float h =
     (let whole = takeWhile (\<lambda>c. c \<noteq> CHR ''.'') h;
          frac = drop 1 (dropWhile (\<lambda>c. c \<noteq> CHR ''.'') h)
      in if whole @ frac \<noteq> [] \<and> list_all is_decimal_char (whole @ frac)
         then Inr (nearest_double (decimal_value (whole @ frac)) (10 ^ length frac))
         else Inl ValueError)"

text \<open>The decimal digits of a natural number, \<^verbatim>\<open>str(n)\<close>.\<close>

function digits_of :: "int \<Rightarrow> string" where
  "digits_of n =
     (if n < 10 then [char_of (48 + n)] else digits_of (n div 10) @ [char_of (48 + n mod 10)])"
  by pat_completeness auto
termination
  by (relation "measure nat") auto

declare digits_of.simps [simp del]

text \<open>\<^verbatim>\<open>f"{val:.1f}"\<close>: the exact value of the double, rounded to one decimal with ties
  to even; infinity prints as \<^verbatim>\<open>inf\<close>.\<close>

definition format_1f :: "pyfloat \<Rightarrow> string" where
  "format_1f val =
     (case val of
        Infinity \<Rightarrow> ''inf''
      | Finite m p \<Rightarrow>
          (let t = (if 0 \<le> p then 10 * m * 2 ^ nat p else round_half_even (10 * m) (2 ^ nat (- p)))
           in digits_of (t div 10) @ ''.'' @ digits_of (t mod 10)))"

text \<open>\<^verbatim>\<open>f"damp{factor:02d}"\<close>\<close>

definition damp_key :: "nat \<Rightarrow> string" where
  "damp_key factor = ''damp'' @ (if factor < 10 then ''0'' else []) @ digits_of (int factor)"

section \<open>The names of the options\<close>

text \<open>
  The module \<^verbatim>\<open>const\<close> (and \<^verbatim>\<open>homeassistant.const\<close>) that binds the option names is not
  among the sources, so the names are parameters of the model: a value of this record
  gives each imported constant its string.
\<close>

record const =
  CONF_API_KEY :: string
  API_QUOTA :: string
  AUTO_UPDATE :: string
  CUSTOM_HOUR_SENSOR :: string
  HARD_LIMIT_API :: string
  KEY_ESTIMATE :: string
  BRK_ESTIMATE :: string
  BRK_ESTIMATE10 :: string
  BRK_ESTIMATE90 :: string
  BRK_SITE :: string
  BRK_HALFHOURLY :: string
  BRK_HOURLY :: string
  BRK_SITE_DETAILED :: string
  SITE_DAMP :: string

section \<open>User input\<close>

text \<open>
  The steps receive what the form schema of the same step lets through, so the input is
  typed as the schema types it. The auto-update selector offers the values
  \<^verbatim>\<open>"0"\<close>, \<^verbatim>\<open>"1"\<close> and \<^verbatim>\<open>"2"\<close>. The options step's schema holds either \<^verbatim>\<open>CONFIG_DAMP\<close>
  or \<^verbatim>\<open>SITE_DAMP\<close>; an absent key is \<^term>\<open>None\<close>.
\<close>

datatype auto_update_choice = Update_none | Update_sunrise_sunset | Update_all_day

text \<open>\<^verbatim>\<open>int(user_input[AUTO_UPDATE])\<close>\<close>

fun int_of_choice :: "auto_update_choice \<Rightarrow> int" where
  "int_of_choice Update_none = 0"
| "int_of_choice Update_sunrise_sunset = 1"
| "int_of_choice Update_all_day = 2"

record user_input =
  api_key :: string
  api_quota :: string
  auto_update :: auto_update_choice

record init_input = user_input +
  key_estimate :: string
  custom_hour_sensor :: int
  hard_limit :: string
  brk_estimate :: bool
  brk_estimate10 :: bool
  brk_estimate90 :: bool
  brk_site :: bool
  brk_halfhourly :: bool
  brk_hourly :: bool
  brk_site_detailed :: bool
  site_damp :: "bool option"
  config_damp :: "bool option"

section \<open>The validators\<close>

definition lower_alnum :: "char \<Rightarrow> bool" where
  "lower_alnum c = (c \<in> set ''abcdefghijklmnopqrstuvwxyz0123456789'')"

text \<open>\<^verbatim>\<open>[a-z0-9]{4}\<close> and \<^verbatim>\<open>-\<close>: each returns what is left of the string.\<close>

fun group4 :: "string \<Rightarrow> string option" where
  "group4 (a # b # c # d # rest) =
     (if lower_alnum a \<and> lower_alnum b \<and> lower_alnum c \<and> lower_alnum d then Some rest else None)"
| "group4 _ = None"

fun hyphen :: "string \<Rightarrow> string option" where
  "hyphen (c # rest) = (if c = CHR ''-'' then Some rest else None)"
| "hyphen [] = None"

text \<open>
  \<^verbatim>\<open>re.match(LIKE_SITE_ID, key)\<close>. Without the multi-line flag, \<^verbatim>\<open>$\<close> matches at the end of
  the string and also just before a line feed that ends the string.
\<close>

definition like_site_id :: "string \<Rightarrow> bool" where
  "like_site_id key =
     (case Option.bind (Option.bind (Option.bind (Option.bind (Option.bind (Option.bind
             (group4 key) hyphen) group4) hyphen) group4) hyphen) group4 of
        None \<Rightarrow> False
      | Some rest \<Rightarrow> rest = [] \<or> rest = [CHR 0x0A])"

text \<open>The inner loop of \<^verbatim>\<open>validate_api_key\<close>: is \<open>key\<close>, found at \<open>index\<close>, also at another
  position of the list? The third argument counts the positions.\<close>

fun other_equal :: "nat \<Rightarrow> string \<Rightarrow> nat \<Rightarrow> string list \<Rightarrow> bool" where
  "other_equal index key i [] = False"
| "other_equal index key i (k # ks) =
     (if index \<noteq> i \<and> key = k then True else other_equal index key (Suc i) ks)"

text \<open>The outer loop: the whole list, the position reached, the keys still to visit.\<close>

fun check_keys :: "string list \<Rightarrow> nat \<Rightarrow> string list \<Rightarrow> string option" where
  "check_keys api_keys index [] = None"
| "check_keys api_keys index (key # rest) =
     (if like_site_id key then Some ''API key looks like a site ID''
      else if other_equal index key 0 api_keys then Some ''Duplicate API key specified''
      else check_keys api_keys (Suc index) rest)"

definition validate_api_key :: "'a user_input_scheme \<Rightarrow> string \<times> nat \<times> string option" where
  "validate_api_key user_input =
     (let api_keys = tokens (api_key user_input)
      in case check_keys api_keys 0 api_keys of
           Some abort \<Rightarrow> ('''', 0, Some abort)
         | None \<Rightarrow> (join_comma api_keys, length api_keys, None))"

text \<open>The loop of \<^verbatim>\<open>validate_api_limit\<close>; \<^verbatim>\<open>int(q)\<close> may raise.\<close>

fun check_quota :: "string list \<Rightarrow> py_exception + string option" where
  "check_quota [] = Inr None"
| "check_quota (q # qs) =
     (if \<not> isnumeric q then Inr (Some ''API limit is not a number'')
      else (case py_int q of
              Inl e \<Rightarrow> Inl e
            | Inr n \<Rightarrow>
                if n < 1 then Inr (Some ''API limit must be one or greater'')
                else check_quota qs))"

definition validate_api_limit ::
  "'a user_input_scheme \<Rightarrow> nat \<Rightarrow> py_exception + string \<times> string option" where
  "validate_api_limit user_input api_count =
     (let quota = tokens (api_quota user_input)
      in case check_quota quota of
           Inl e \<Rightarrow> Inl e
         | Inr (Some abort) \<Rightarrow> Inr ('''', Some abort)
         | Inr None \<Rightarrow>
             if api_count < length quota
             then Inr ('''', Some ''There are more API limit counts entered than keys'')
             else Inr (join_comma quota, None))"

section \<open>The flows\<close>

text \<open>
  What a step returns: \<^verbatim>\<open>async_abort(reason=...)\<close>, \<^verbatim>\<open>async_show_form(step_id=...,
  errors=...)\<close> with the value of \<^verbatim>\<open>errors["base"]\<close> if there is one, or
  \<^verbatim>\<open>async_create_entry(...)\<close>. A form is modelled up to the step it belongs to and its
  errors: building its schema from the stored options is the work of the form
  collaborator. An exception that leaves a step is the left summand of the result.
\<close>

datatype base_error = Exception_text py_exception | Unknown

datatype flow_result = Abort string | Show_form string "base_error option" | Create_entry

subsection \<open>Initial setup\<close>

text \<open>The host's entries of this integration; a created entry is its options record.\<close>

record config_flow =
  current_entries :: "options list"

text \<open>\<^verbatim>\<open>{f"damp{factor:02d}": 1.0 for factor in range(24)}\<close>\<close>

definition default_damp :: options where
  "default_damp = foldl (\<lambda>d factor. d(damp_key factor \<mapsto> VFloat 1)) Map.empty [0..<24]"

definition async_step_user ::
  "const \<Rightarrow> config_flow \<Rightarrow> user_input option \<Rightarrow> (py_exception + flow_result) \<times> config_flow" where
  "async_step_user c self user_input =
     (if current_entries self \<noteq> [] then (Inr (Abort ''single_instance_allowed''), self)
      else case user_input of
        None \<Rightarrow> (Inr (Show_form ''user'' None), self)
      | Some ui \<Rightarrow>
          (case validate_api_key ui of
             (key, api_count, Some abort) \<Rightarrow> (Inr (Abort abort), self)
           | (key, api_count, None) \<Rightarrow>
               (case validate_api_limit ui api_count of
                  Inl e \<Rightarrow> (Inl e, self)
                | Inr (quota, Some abort) \<Rightarrow> (Inr (Abort abort), self)
                | Inr (quota, None) \<Rightarrow>
                    (let opts = Map.empty
                           (CONF_API_KEY c \<mapsto> VStr key,
                            API_QUOTA c \<mapsto> VStr quota,
                            AUTO_UPDATE c \<mapsto> VInt (int_of_choice (auto_update ui)),
                            CUSTOM_HOUR_SENSOR c \<mapsto> VInt 1,
                            HARD_LIMIT_API c \<mapsto> VStr ''100.0'',
                            KEY_ESTIMATE c \<mapsto> VStr ''estimate'',
                            BRK_ESTIMATE c \<mapsto> VBool True,
                            BRK_ESTIMATE10 c \<mapsto> VBool True,
                            BRK_ESTIMATE90 c \<mapsto> VBool True,
                            BRK_SITE c \<mapsto> VBool True,
                            BRK_HALFHOURLY c \<mapsto> VBool True,
                            BRK_HOURLY c \<mapsto> VBool True,
                            BRK_SITE_DETAILED c \<mapsto> VBool False)
                     in (Inr Create_entry,
                         self\<lparr>current_entries := current_entries self @ [opts ++ default_damp]\<rparr>)))))"

subsection \<open>Options\<close>

text \<open>
  The handler: the options stored on the entry (what \<^verbatim>\<open>async_update_entry\<close> replaces),
  \<^verbatim>\<open>self._options\<close> (the entry's options when the handler was made) and
  \<^verbatim>\<open>self._all_config_data\<close>.
\<close>

record options_flow =
  entry_options :: options
  self_options :: options
  self_all_config_data :: "options option"

text \<open>\<^verbatim>\<open>SolcastSolarOptionFlowHandler(config_entry)\<close>\<close>

definition new_options_flow :: "options \<Rightarrow> options_flow" where
  "new_options_flow stored =
     \<lparr>entry_options = stored, self_options = stored, self_all_config_data = None\<rparr>"

datatype 'a outcome = Proceed 'a | Aborted string | Raised py_exception

text \<open>The loop over \<^verbatim>\<open>hard_limit.split(",")\<close>; the second argument is \<^verbatim>\<open>to_set\<close>.\<close>

fun hard_limit_loop :: "string list \<Rightarrow> string list \<Rightarrow> string list outcome" where
  "hard_limit_loop [] to_set = Proceed to_set"
| "hard_limit_loop (h # hs) to_set =
     (let h' = strip h
      in if \<not> isdigit (remove1 (CHR ''.'') h') then Aborted ''Hard limit is not a positive number''
         else (case py_float h' of
                 Inl e \<Rightarrow> Raised e
               | Inr val \<Rightarrow> hard_limit_loop hs (to_set @ [format_1f val])))"

text \<open>The assignments to \<^verbatim>\<open>all_config_data\<close> of a validated submission, in the order of
  the source, on a copy of \<^verbatim>\<open>self._options\<close>.\<close>

definition merged_config :: "const \<Rightarrow> options \<Rightarrow> init_input \<Rightarrow> string \<Rightarrow> string \<Rightarrow> string \<Rightarrow> options" where
  "merged_config c opts ui key quota hard =
     (let d = opts
            (CONF_API_KEY c \<mapsto> VStr key,
             API_QUOTA c \<mapsto> VStr quota,
             CUSTOM_HOUR_SENSOR c \<mapsto> VInt (custom_hour_sensor ui),
             HARD_LIMIT_API c \<mapsto> VStr hard);
          d = (case site_damp ui of None \<Rightarrow> d | Some b \<Rightarrow> d(SITE_DAMP c \<mapsto> VBool b))
      in d(AUTO_UPDATE c \<mapsto> VInt (int_of_choice (auto_update ui)),
           KEY_ESTIMATE c \<mapsto> VStr (key_estimate ui),
           BRK_ESTIMATE c \<mapsto> VBool (brk_estimate ui),
           BRK_ESTIMATE10 c \<mapsto> VBool (brk_estimate10 ui),
           BRK_ESTIMATE90 c \<mapsto> VBool (brk_estimate90 ui),
           BRK_HALFHOURLY c \<mapsto> VBool (brk_halfhourly ui),
           BRK_HOURLY c \<mapsto> VBool (brk_hourly ui),
           BRK_SITE c \<mapsto> VBool (brk_site ui),
           BRK_SITE_DETAILED c \<mapsto> VBool (brk_site_detailed ui)))"

text \<open>The dictionary \<^verbatim>\<open>extant\<close> reads all 24 slots; the first missing one raises.\<close>

fun extant_missing :: "options \<Rightarrow> nat list \<Rightarrow> string option" where
  "extant_missing all_config_data [] = None"
| "extant_missing all_config_data (factor # rest) =
     (if all_config_data (damp_key factor) = None then Some (damp_key factor)
      else extant_missing all_config_data rest)"

text \<open>The loop that assigns the slots from the input; a missing key raises and leaves
  the assignments made so far.\<close>

fun assign_damp :: "options \<Rightarrow> options \<Rightarrow> nat list \<Rightarrow> py_exception option \<times> options" where
  "assign_damp all_config_data user_input [] = (None, all_config_data)"
| "assign_damp all_config_data user_input (factor # rest) =
     (case user_input (damp_key factor) of
        None \<Rightarrow> (Some (KeyError (damp_key factor)), all_config_data)
      | Some v \<Rightarrow> assign_damp (all_config_data(damp_key factor \<mapsto> v)) user_input rest)"

text \<open>
  When \<^verbatim>\<open>self._all_config_data\<close> is set, \<^verbatim>\<open>all_config_data\<close> is that very dictionary, so
  the assignments show in it; otherwise it is a copy of \<^verbatim>\<open>self._options\<close>.
\<close>

definition async_step_dampen ::
  "const \<Rightarrow> options_flow \<Rightarrow> options option \<Rightarrow> (py_exception + flow_result) \<times> options_flow" where
  "async_step_dampen c self user_input =
     (let all_config_data =
            (case self_all_config_data self of None \<Rightarrow> self_options self | Some d \<Rightarrow> d)
      in case extant_missing all_config_data [0..<24] of
           Some k \<Rightarrow> (Inl (KeyError k), self)
         | None \<Rightarrow>
             (case user_input of
                None \<Rightarrow> (Inr (Show_form ''dampen'' None), self)
              | Some ui \<Rightarrow>
                  (case assign_damp all_config_data ui [0..<24] of
                     (Some e, d) \<Rightarrow>
                       (Inr (Show_form ''dampen'' (Some Unknown)),
                        self\<lparr>self_all_config_data :=
                               map_option (\<lambda>_. d) (self_all_config_data self)\<rparr>)
                   | (None, d) \<Rightarrow>
                       (let d' = d(SITE_DAMP c \<mapsto> VBool False)
                        in (Inr Create_entry,
                            self\<lparr>entry_options := d',
                                 self_all_config_data :=
                                   map_option (\<lambda>_. d') (self_all_config_data self)\<rparr>)))))"

text \<open>The body of the \<^verbatim>\<open>try\<close> of \<^verbatim>\<open>async_step_init\<close>.\<close>

definition init_submit ::
  "const \<Rightarrow> options_flow \<Rightarrow> init_input \<Rightarrow> (py_exception + flow_result) \<times> options_flow" where
  "init_submit c self ui =
     (case validate_api_key ui of
        (key, api_count, Some abort) \<Rightarrow> (Inr (Abort abort), self)
      | (key, api_count, None) \<Rightarrow>
          (case validate_api_limit ui api_count of
             Inl e \<Rightarrow> (Inl e, self)
           | Inr (quota, Some abort) \<Rightarrow> (Inr (Abort abort), self)
           | Inr (quota, None) \<Rightarrow>
               if custom_hour_sensor ui < 1 \<or> custom_hour_sensor ui > 144
               then (Inr (Abort ''Custom sensor not between 1 and 144''), self)
               else (case hard_limit_loop (split_comma (hard_limit ui)) [] of
                       Raised e \<Rightarrow> (Inl e, self)
                     | Aborted abort \<Rightarrow> (Inr (Abort abort), self)
                     | Proceed to_set \<Rightarrow>
                         if api_count < length to_set
                         then (Inr (Abort ''There are more hard limits entered than keys''), self)
                         else (let all_config_data =
                                     merged_config c (self_options self) ui key quota
                                       (join_comma to_set);
                                   self' = self\<lparr>self_all_config_data := Some all_config_data\<rparr>
                               in if config_damp ui = Some True
                                  then async_step_dampen c self' None
                                  else (Inr Create_entry,
                                        self'\<lparr>entry_options := all_config_data\<rparr>)))))"

text \<open>\<^verbatim>\<open>except Exception as e: errors["base"] = str(e)\<close>, then the form again.\<close>

definition async_step_init ::
  "const \<Rightarrow> options_flow \<Rightarrow> init_input option \<Rightarrow> flow_result \<times> options_flow" where
  "async_step_init c self user_input =
     (case user_input of
        None \<Rightarrow> (Show_form ''init'' None, self)
      | Some ui \<Rightarrow>
          (case init_submit c self ui of
             (Inl e, self') \<Rightarrow> (Show_form ''init'' (Some (Exception_text e)), self')
           | (Inr r, self') \<Rightarrow> (r, self')))"

section \<open>Notions used in the statements\<close>

definition option_names :: "const \<Rightarrow> string list" where
  "option_names c =
     [CONF_API_KEY c, API_QUOTA c, AUTO_UPDATE c, CUSTOM_HOUR_SENSOR c, HARD_LIMIT_API c,
      KEY_ESTIMATE c, BRK_ESTIMATE c, BRK_ESTIMATE10 c, BRK_ESTIMATE90 c, BRK_SITE c,
      BRK_HALFHOURLY c, BRK_HOURLY c, BRK_SITE_DETAILED c, SITE_DAMP c]"

text \<open>The names are pairwise different, and none is the name of a dampening slot.\<close>

definition names_apart :: "const \<Rightarrow> bool" where
  "names_apart c =
     (distinct (option_names c) \<and>
      list_all (\<lambda>factor. damp_key factor \<notin> set (option_names c)) [0..<24])"

text \<open>The keys that a validated submission of the main options step assigns.\<close>

definition overwritten :: "const \<Rightarrow> init_input \<Rightarrow> string set" where
  "overwritten c ui =
     {CONF_API_KEY c, API_QUOTA c, AUTO_UPDATE c, CUSTOM_HOUR_SENSOR c, HARD_LIMIT_API c,
      KEY_ESTIMATE c, BRK_ESTIMATE c, BRK_ESTIMATE10 c, BRK_ESTIMATE90 c, BRK_SITE c,
      BRK_HALFHOURLY c, BRK_HOURLY c, BRK_SITE_DETAILED c} \<union>
     (if site_damp ui = None then {} else {SITE_DAMP c})"

text \<open>An assignment of names, for the examples.\<close>

definition example_names :: const where
  "example_names =
     \<lparr>CONF_API_KEY = ''api_key'', API_QUOTA = ''api_quota'', AUTO_UPDATE = ''auto_update'',
      CUSTOM_HOUR_SENSOR = ''customhoursensor'', HARD_LIMIT_API = ''hard_limit_api'',
      KEY_ESTIMATE = ''key_estimate'', BRK_ESTIMATE = ''attr_brk_estimate'',
      BRK_ESTIMATE10 = ''attr_brk_estimate10'', BRK_ESTIMATE90 = ''attr_brk_estimate90'',
      BRK_SITE = ''attr_brk_site'', BRK_HALFHOURLY = ''attr_brk_halfhourly'',
      BRK_HOURLY = ''attr_brk_hourly'', BRK_SITE_DETAILED = ''attr_brk_detailed'',
      SITE_DAMP = ''site_damp''\<rparr>"

text \<open>A submission to the main options step, for the examples.\<close>

definition example_input :: "string \<Rightarrow> string \<Rightarrow> int \<Rightarrow> string \<Rightarrow> init_input" where
  "example_input keys quota hours hard =
     \<lparr>api_key = keys, api_quota = quota, auto_update = Update_sunrise_sunset,
      key_estimate = ''estimate'', custom_hour_sensor = hours, hard_limit = hard,
      brk_estimate = True, brk_estimate10 = True, brk_estimate90 = True, brk_site = True,
      brk_halfhourly = True, brk_hourly = True, brk_site_detailed = False,
      site_damp = None, config_damp = Some False\<rparr>"

text \<open>A quota token that the validator lets through: numeric, and an integer from 1 on.\<close>

definition valid_quota :: "string \<Rightarrow> bool" where
  "valid_quota q = (isnumeric q \<and> (case py_int q of Inl e \<Rightarrow> False | Inr n \<Rightarrow> 1 \<le> n))"

text \<open>
  The tokens of a field as the specification words them, with all white space removed
  (every character of which \<^verbatim>\<open>str.isspace\<close> holds), where the source removes U+0020
  only. This definition follows the specification, not the source.
\<close>

definition spec_remove_whitespace :: "string \<Rightarrow> string" where
  "spec_remove_whitespace s = filter (\<lambda>c. \<not> is_space_char c) s"

definition spec_tokens :: "string \<Rightarrow> string list" where
  "spec_tokens raw = filter (\<lambda>s. s \<noteq> []) (split_comma (spec_remove_whitespace raw))"

section \<open>The key validator\<close>

lemma other_equal_iff:
  "other_equal index key i ks \<longleftrightarrow> (\<exists>j<length ks. i + j \<noteq> index \<and> ks ! j = key)"
proof (induction ks arbitrary: i)
  case Nil
  then show ?case by simp
next
  case (Cons k ks)
  show ?case
  proof
    assume "other_equal index key i (k # ks)"
    then consider "index \<noteq> i \<and> key = k" | "other_equal index key (Suc i) ks"
      by (auto split: if_splits)
    then show "\<exists>j<length (k # ks). i + j \<noteq> index \<and> (k # ks) ! j = key"
    proof cases
      case 1
      then have "0 < length (k # ks) \<and> i + 0 \<noteq> index \<and> (k # ks) ! 0 = key" by auto
      then show ?thesis by blast
    next
      case 2
      then obtain j where "j < length ks" "Suc i + j \<noteq> index" "ks ! j = key"
        using Cons.IH by blast
      then have "Suc j < length (k # ks) \<and> i + Suc j \<noteq> index \<and> (k # ks) ! Suc j = key" by simp
      then show ?thesis by blast
    qed
  next
    assume "\<exists>j<length (k # ks). i + j \<noteq> index \<and> (k # ks) ! j = key"
    then obtain j where j: "j < length (k # ks)" "i + j \<noteq> index" "(k # ks) ! j = key" by blast
    show "other_equal index key i (k # ks)"
    proof (cases j)
      case 0
      with j show ?thesis by simp
    next
      case (Suc j')
      with j have "j' < length ks" "Suc i + j' \<noteq> index" "ks ! j' = key" by auto
      then have "other_equal index key (Suc i) ks" using Cons.IH by blast
      then show ?thesis by simp
    qed
  qed
qed

lemma other_equal_split:
  "other_equal (length xs) key 0 (xs @ key # ys) \<longleftrightarrow> key \<in> set xs \<or> key \<in> set ys"
proof -
  have "(\<exists>j<length (xs @ key # ys). j \<noteq> length xs \<and> (xs @ key # ys) ! j = key)
        \<longleftrightarrow> key \<in> set xs \<or> key \<in> set ys" (is "?L \<longleftrightarrow> ?R")
  proof
    assume ?L
    then obtain j where j: "j < length (xs @ key # ys)" "j \<noteq> length xs" "(xs @ key # ys) ! j = key"
      by blast
    show ?R
    proof (cases "j < length xs")
      case True
      with j have "xs ! j = key" by (simp add: nth_append)
      with True show ?thesis by (metis nth_mem)
    next
      case False
      with j have gt: "length xs < j" by simp
      then have "(xs @ key # ys) ! j = ys ! (j - Suc (length xs))"
        by (simp add: nth_append nth_Cons')
      moreover from gt j have "j - Suc (length xs) < length ys" by simp
      ultimately show ?thesis using j by (metis nth_mem)
    qed
  next
    assume ?R
    then show ?L
    proof
      assume "key \<in> set xs"
      then obtain j where "j < length xs" "xs ! j = key" by (auto simp: in_set_conv_nth)
      then have "j < length (xs @ key # ys) \<and> j \<noteq> length xs \<and> (xs @ key # ys) ! j = key"
        by (simp add: nth_append)
      then show ?L by blast
    next
      assume "key \<in> set ys"
      then obtain j where "j < length ys" "ys ! j = key" by (auto simp: in_set_conv_nth)
      then have "Suc (length xs) + j < length (xs @ key # ys) \<and> Suc (length xs) + j \<noteq> length xs
                 \<and> (xs @ key # ys) ! (Suc (length xs) + j) = key"
        by (simp add: nth_append)
      then show ?L by blast
    qed
  qed
  then show ?thesis by (simp add: other_equal_iff)
qed

text \<open>The outer loop, started anywhere in the list.\<close>

lemma check_keys_step:
  "check_keys (xs @ key # ys) (length xs) (key # ys) =
     (if like_site_id key then Some ''API key looks like a site ID''
      else if key \<in> set xs \<or> key \<in> set ys then Some ''Duplicate API key specified''
      else check_keys ((xs @ [key]) @ ys) (length (xs @ [key])) ys)"
  using other_equal_split [of xs key ys] by simp

lemma check_keys_clean_prefix:
  assumes "\<forall>k\<in>set pre. \<not> like_site_id k" "distinct pre" "set pre \<inter> (set xs \<union> set rest) = {}"
  shows "check_keys (xs @ pre @ rest) (length xs) (pre @ rest) =
         check_keys ((xs @ pre) @ rest) (length (xs @ pre)) rest"
  using assms
proof (induction pre arbitrary: xs)
  case Nil
  then show ?case by simp
next
  case (Cons k pre)
  have "check_keys (xs @ (k # pre) @ rest) (length xs) ((k # pre) @ rest) =
        check_keys ((xs @ [k]) @ pre @ rest) (length (xs @ [k])) (pre @ rest)"
    using Cons.prems check_keys_step [of xs k "pre @ rest"] by auto
  also have "\<dots> = check_keys (((xs @ [k]) @ pre) @ rest) (length ((xs @ [k]) @ pre)) rest"
    using Cons.prems by (intro Cons.IH) auto
  finally show ?case by simp
qed

lemma check_keys_None_iff:
  "check_keys (xs @ rest) (length xs) rest = None \<longleftrightarrow>
     (\<forall>k\<in>set rest. \<not> like_site_id k) \<and> distinct rest \<and> set xs \<inter> set rest = {}"
proof (induction rest arbitrary: xs)
  case Nil
  then show ?case by simp
next
  case (Cons k rest)
  have "check_keys (xs @ k # rest) (length xs) (k # rest) = None \<longleftrightarrow>
        \<not> like_site_id k \<and> k \<notin> set xs \<and> k \<notin> set rest \<and>
        check_keys ((xs @ [k]) @ rest) (length (xs @ [k])) rest = None"
    using check_keys_step [of xs k rest] by auto
  also have "\<dots> \<longleftrightarrow> \<not> like_site_id k \<and> k \<notin> set xs \<and> k \<notin> set rest \<and>
        (\<forall>k\<in>set rest. \<not> like_site_id k) \<and> distinct rest \<and> set (xs @ [k]) \<inter> set rest = {}"
    using Cons.IH [of "xs @ [k]"] by simp
  finally show ?case by auto
qed

lemma check_keys_reason:
  "check_keys (xs @ rest) (length xs) rest = Some r \<Longrightarrow>
     (r = ''API key looks like a site ID'' \<and> (\<exists>k\<in>set rest. like_site_id k)) \<or>
     (r = ''Duplicate API key specified'' \<and> \<not> distinct (xs @ rest))"
proof (induction rest arbitrary: xs)
  case Nil
  then show ?case by simp
next
  case (Cons k rest)
  show ?case
  proof (cases "like_site_id k")
    case True
    with Cons.prems show ?thesis using check_keys_step [of xs k rest] by auto
  next
    case nosite: False
    show ?thesis
    proof (cases "k \<in> set xs \<or> k \<in> set rest")
      case True
      with nosite Cons.prems show ?thesis using check_keys_step [of xs k rest] by auto
    next
      case False
      with nosite Cons.prems
      have "check_keys ((xs @ [k]) @ rest) (length (xs @ [k])) rest = Some r"
        using check_keys_step [of xs k rest] by simp
      from Cons.IH [OF this] show ?thesis by auto
    qed
  qed
qed


lemma validate_api_key_eq:
  "validate_api_key ui =
     (case check_keys ([] @ tokens (api_key ui)) (length ([] :: string list)) (tokens (api_key ui)) of
        Some abort \<Rightarrow> ([], 0, Some abort)
      | None \<Rightarrow> (join_comma (tokens (api_key ui)), length (tokens (api_key ui)), None))"
  by (simp add: validate_api_key_def Let_def)

lemma validate_api_key_None_iff:
  "snd (snd (validate_api_key ui)) = None \<longleftrightarrow>
     (\<forall>k\<in>set (tokens (api_key ui)). \<not> like_site_id k) \<and> distinct (tokens (api_key ui))"
  using check_keys_None_iff [of "[]" "tokens (api_key ui)"]
  by (auto simp: validate_api_key_def Let_def split: option.splits)

lemma validate_api_key_offender:
  assumes toks: "tokens (api_key ui) = pre @ key # post"
    and clean: "\<forall>k\<in>set pre. \<not> like_site_id k" "distinct pre" "set pre \<inter> set (key # post) = {}"
  shows "validate_api_key ui =
     (if like_site_id key then ([], 0, Some ''API key looks like a site ID'')
      else if key \<in> set post then ([], 0, Some ''Duplicate API key specified'')
      else (case check_keys ((pre @ [key]) @ post) (length (pre @ [key])) post of
              Some abort \<Rightarrow> ([], 0, Some abort)
            | None \<Rightarrow> (join_comma (pre @ key # post), length (pre @ key # post), None)))"
proof -
  have "check_keys ([] @ pre @ key # post) (length ([] :: string list)) (pre @ key # post) =
        check_keys (([] @ pre) @ key # post) (length ([] @ pre)) (key # post)"
    using clean by (intro check_keys_clean_prefix) auto
  moreover have "key \<notin> set pre" using clean by auto
  ultimately have "check_keys (pre @ key # post) 0 (pre @ key # post) =
     (if like_site_id key then Some ''API key looks like a site ID''
      else if key \<in> set post then Some ''Duplicate API key specified''
      else check_keys ((pre @ [key]) @ post) (length (pre @ [key])) post)"
    using check_keys_step [of pre key post] by simp
  then show ?thesis
    by (simp add: validate_api_key_def Let_def toks)
qed

text \<open>
  C3. The shape check of a key comes before its duplicate check, and the first key that
  fails either check decides. Whenever the loop reaches a key shaped like a site
  identifier (every earlier key has passed both checks), the result is the site-identifier
  reason, also when that key occurs again later. Whenever it reaches a key not so shaped
  that occurs again, the result is the duplicate reason. A list with a repeated key and no
  key shaped like a site identifier is rejected as a duplicate wherever the repetition
  stands. The site-identifier reason is given only when such a key is present, the
  duplicate reason only when a key is repeated.
\<close>

theorem validate_api_key_shape_before_duplicate:
  "(\<forall>pre key post.
      tokens (api_key ui) = pre @ key # post \<and> (\<forall>k\<in>set pre. \<not> like_site_id k) \<and>
      distinct pre \<and> set pre \<inter> set (key # post) = {} \<and> like_site_id key \<longrightarrow>
      validate_api_key ui = ([], 0, Some ''API key looks like a site ID'')) \<and>
   (\<forall>pre key post.
      tokens (api_key ui) = pre @ key # post \<and> (\<forall>k\<in>set pre. \<not> like_site_id k) \<and>
      distinct pre \<and> set pre \<inter> set (key # post) = {} \<and> \<not> like_site_id key \<and> key \<in> set post \<longrightarrow>
      validate_api_key ui = ([], 0, Some ''Duplicate API key specified'')) \<and>
   ((\<forall>k\<in>set (tokens (api_key ui)). \<not> like_site_id k) \<and> \<not> distinct (tokens (api_key ui)) \<longrightarrow>
      validate_api_key ui = ([], 0, Some ''Duplicate API key specified'')) \<and>
   (snd (snd (validate_api_key ui)) = Some ''API key looks like a site ID'' \<longrightarrow>
      (\<exists>k\<in>set (tokens (api_key ui)). like_site_id k)) \<and>
   (snd (snd (validate_api_key ui)) = Some ''Duplicate API key specified'' \<longrightarrow>
      \<not> distinct (tokens (api_key ui)))"
proof (intro conjI allI impI)
  fix pre key post
  assume "tokens (api_key ui) = pre @ key # post \<and> (\<forall>k\<in>set pre. \<not> like_site_id k) \<and>
      distinct pre \<and> set pre \<inter> set (key # post) = {} \<and> like_site_id key"
  then show "validate_api_key ui = ([], 0, Some ''API key looks like a site ID'')"
    using validate_api_key_offender [of ui pre key post] by simp
next
  fix pre key post
  assume "tokens (api_key ui) = pre @ key # post \<and> (\<forall>k\<in>set pre. \<not> like_site_id k) \<and>
      distinct pre \<and> set pre \<inter> set (key # post) = {} \<and> \<not> like_site_id key \<and> key \<in> set post"
  then show "validate_api_key ui = ([], 0, Some ''Duplicate API key specified'')"
    using validate_api_key_offender [of ui pre key post] by simp
next
  assume a: "(\<forall>k\<in>set (tokens (api_key ui)). \<not> like_site_id k) \<and> \<not> distinct (tokens (api_key ui))"
  then have "check_keys ([] @ tokens (api_key ui)) (length ([] :: string list)) (tokens (api_key ui)) \<noteq> None"
    using check_keys_None_iff [of "[]" "tokens (api_key ui)"] by simp
  then obtain r where r: "check_keys ([] @ tokens (api_key ui)) (length ([] :: string list)) (tokens (api_key ui)) = Some r"
    by blast
  from check_keys_reason [OF r] a have "r = ''Duplicate API key specified''" by blast
  with r show "validate_api_key ui = ([], 0, Some ''Duplicate API key specified'')"
    by (simp add: validate_api_key_eq)
next
  assume "snd (snd (validate_api_key ui)) = Some ''API key looks like a site ID''"
  then have "check_keys ([] @ tokens (api_key ui)) (length ([] :: string list)) (tokens (api_key ui))
             = Some ''API key looks like a site ID''"
    by (simp add: validate_api_key_eq split: option.splits)
  from check_keys_reason [OF this] show "\<exists>k\<in>set (tokens (api_key ui)). like_site_id k" by simp
next
  assume "snd (snd (validate_api_key ui)) = Some ''Duplicate API key specified''"
  then have "check_keys ([] @ tokens (api_key ui)) (length ([] :: string list)) (tokens (api_key ui))
             = Some ''Duplicate API key specified''"
    by (simp add: validate_api_key_eq split: option.splits)
  from check_keys_reason [OF this] show "\<not> distinct (tokens (api_key ui))" by simp
qed

theorem validate_api_key_shape_before_duplicate_witness:
  "validate_api_key \<lparr>api_key = ''key1, abcd-0123-wxyz-9999, key2 ,abcd-0123-wxyz-9999'',
       api_quota = ''10'', auto_update = Update_none\<rparr>
     = ([], 0, Some ''API key looks like a site ID'') \<and>
   validate_api_key \<lparr>api_key = ''key1,key2,key3,key2'', api_quota = ''10'', auto_update = Update_none\<rparr>
     = ([], 0, Some ''Duplicate API key specified'')"
proof -
  let ?a = "\<lparr>api_key = ''key1, abcd-0123-wxyz-9999, key2 ,abcd-0123-wxyz-9999'',
       api_quota = ''10'', auto_update = Update_none\<rparr>"
  let ?b = "\<lparr>api_key = ''key1,key2,key3,key2'', api_quota = ''10'', auto_update = Update_none\<rparr>"
  have ta: "tokens (api_key ?a) = [''key1''] @ ''abcd-0123-wxyz-9999'' # [''key2'', ''abcd-0123-wxyz-9999'']"
    by code_simp
  have tb: "tokens (api_key ?b) = [''key1''] @ ''key2'' # [''key3'', ''key2'']"
    by code_simp
  have s: "like_site_id ''abcd-0123-wxyz-9999''" "\<not> like_site_id ''key1''" "\<not> like_site_id ''key2''"
    by code_simp+
  from validate_api_key_shape_before_duplicate [of ?a]
  have "tokens (api_key ?a) = [''key1''] @ ''abcd-0123-wxyz-9999'' # [''key2'', ''abcd-0123-wxyz-9999''] \<and>
      (\<forall>k\<in>set [''key1'']. \<not> like_site_id k) \<and>
      distinct [''key1''] \<and> set [''key1''] \<inter> set (''abcd-0123-wxyz-9999'' # [''key2'', ''abcd-0123-wxyz-9999'']) = {} \<and>
      like_site_id ''abcd-0123-wxyz-9999'' \<longrightarrow>
      validate_api_key ?a = ([], 0, Some ''API key looks like a site ID'')"
    by blast
  with ta s have A: "validate_api_key ?a = ([], 0, Some ''API key looks like a site ID'')" by simp
  from validate_api_key_shape_before_duplicate [of ?b]
  have "tokens (api_key ?b) = [''key1''] @ ''key2'' # [''key3'', ''key2''] \<and>
      (\<forall>k\<in>set [''key1'']. \<not> like_site_id k) \<and>
      distinct [''key1''] \<and> set [''key1''] \<inter> set (''key2'' # [''key3'', ''key2'']) = {} \<and>
      \<not> like_site_id ''key2'' \<and> ''key2'' \<in> set [''key3'', ''key2''] \<longrightarrow>
      validate_api_key ?b = ([], 0, Some ''Duplicate API key specified'')"
    by blast
  with tb s have B: "validate_api_key ?b = ([], 0, Some ''Duplicate API key specified'')" by simp
  from A B show ?thesis by simp
qed

subsection \<open>Normal form of the key list\<close>

lemma split_comma_not_Nil: "split_comma s \<noteq> []"
  by (induction s) (auto split: list.splits)

lemma split_comma_no_comma: "t \<in> set (split_comma s) \<Longrightarrow> CHR '','' \<notin> set t"
  by (induction s arbitrary: t) (auto split: if_splits list.splits)

lemma split_comma_chars_all: "\<forall>t\<in>set (split_comma s). set t \<subseteq> set s"
  by (induction s) (auto split: if_splits list.splits)

lemma split_comma_chars: "t \<in> set (split_comma s) \<Longrightarrow> set t \<subseteq> set s"
  using split_comma_chars_all by blast

lemma tokens_shape:
  assumes "t \<in> set (tokens raw)"
  shows "t \<noteq> [] \<and> CHR '','' \<notin> set t \<and> CHR '' '' \<notin> set t"
proof -
  from assms have t: "t \<in> set (split_comma (replace_space raw))" "t \<noteq> []"
    by (auto simp: tokens_def)
  from split_comma_chars [OF t(1)] have "CHR '' '' \<notin> set t"
    by (auto simp: replace_space_def)
  with t split_comma_no_comma [OF t(1)] show ?thesis by simp
qed

lemma split_comma_token: "CHR '','' \<notin> set t \<Longrightarrow> split_comma (t @ CHR '','' # s) = t # split_comma s"
  by (induction t) (auto split: list.splits)

lemma split_comma_single: "CHR '','' \<notin> set t \<Longrightarrow> split_comma t = [t]"
  by (induction t) (auto split: list.splits)

lemma split_join:
  "ts \<noteq> [] \<Longrightarrow> \<forall>t\<in>set ts. CHR '','' \<notin> set t \<Longrightarrow> split_comma (join_comma ts) = ts"
  by (induction ts rule: join_comma.induct) (auto simp: split_comma_single split_comma_token)

lemma set_join_comma: "set (join_comma ts) \<subseteq> insert (CHR '','') (\<Union>t\<in>set ts. set t)"
  by (induction ts rule: join_comma.induct) auto

lemma tokens_join:
  assumes "\<forall>t\<in>set ts. t \<noteq> [] \<and> CHR '','' \<notin> set t \<and> CHR '' '' \<notin> set t"
  shows "tokens (join_comma ts) = ts"
proof (cases "ts = []")
  case True
  then show ?thesis by (simp add: tokens_def replace_space_def)
next
  case False
  have "CHR '' '' \<notin> set (join_comma ts)"
    using set_join_comma [of ts] assms by auto
  then have "replace_space (join_comma ts) = join_comma ts"
    by (auto simp: replace_space_def filter_id_conv)
  moreover have "split_comma (join_comma ts) = ts"
    using False assms by (simp add: split_join)
  moreover have "filter (\<lambda>s. s \<noteq> []) ts = ts"
    using assms by (simp add: filter_id_conv)
  ultimately show ?thesis by (simp add: tokens_def)
qed

text \<open>
  C9, as amended. The source removes the space character U+0020 only; a tab, a line feed
  or a no-break space stays part of its key. When the tokens of the key field (the field
  without its characters U+0020, split at the commas, empty pieces dropped) are pairwise
  different and none is shaped like a site identifier, \<open>validate_api_key\<close> succeeds with
  these tokens in their order, joined by single commas, and with their number; run again
  on that result it returns the same string and the same number.
\<close>

theorem validate_api_key_normalises:
  assumes "distinct (tokens (api_key ui))" and "\<forall>k\<in>set (tokens (api_key ui)). \<not> like_site_id k"
  shows "validate_api_key ui =
           (join_comma (tokens (api_key ui)), length (tokens (api_key ui)), None) \<and>
         validate_api_key (ui\<lparr>api_key := join_comma (tokens (api_key ui))\<rparr>) =
           (join_comma (tokens (api_key ui)), length (tokens (api_key ui)), None)"
proof -
  have n: "check_keys ([] @ tokens (api_key ui)) (length ([] :: string list)) (tokens (api_key ui)) = None"
    using assms check_keys_None_iff [of "[]" "tokens (api_key ui)"] by simp
  then have first: "validate_api_key ui =
           (join_comma (tokens (api_key ui)), length (tokens (api_key ui)), None)"
    by (simp add: validate_api_key_eq)
  have "tokens (join_comma (tokens (api_key ui))) = tokens (api_key ui)"
    using tokens_shape [of _ "api_key ui"] by (intro tokens_join) blast
  then have "validate_api_key (ui\<lparr>api_key := join_comma (tokens (api_key ui))\<rparr>) =
           (join_comma (tokens (api_key ui)), length (tokens (api_key ui)), None)"
    using n by (simp add: validate_api_key_eq)
  with first show ?thesis by simp
qed

theorem validate_api_key_normalises_witness:
  "validate_api_key \<lparr>api_key = '' key1, key2,,key3 '', api_quota = ''10'', auto_update = Update_none\<rparr>
     = (''key1,key2,key3'', 3, None) \<and>
   validate_api_key \<lparr>api_key = ''key1,key2,key3'', api_quota = ''10'', auto_update = Update_none\<rparr>
     = (''key1,key2,key3'', 3, None)"
proof -
  let ?a = "\<lparr>api_key = '' key1, key2,,key3 '', api_quota = ''10'', auto_update = Update_none\<rparr>"
  have t: "tokens '' key1, key2,,key3 '' = [''key1'', ''key2'', ''key3'']" by code_simp
  have s: "\<not> like_site_id ''key1''" "\<not> like_site_id ''key2''" "\<not> like_site_id ''key3''"
    by code_simp+
  have d: "distinct (tokens (api_key ?a))" by (simp add: t)
  have l: "\<forall>k\<in>set (tokens (api_key ?a)). \<not> like_site_id k" using s by (simp add: t)
  from validate_api_key_normalises [OF d l] show ?thesis by (simp add: t)
qed

text \<open>
  C9 as the specification states it, with all white space removed, fails on the key field
  \<open>key1\<close> followed by a tab (U+0009): removing white space leaves the one token \<open>key1\<close>,
  which is not repeated and not shaped like a site identifier, yet the validator returns
  the key with its tab, not \<open>key1\<close>. With \<open>key1\<close>, a tab, a comma and \<open>key1\<close> the two
  tokens are the same once white space is removed, and the validator accepts them as
  two keys.
\<close>

theorem validate_api_key_keeps_tab_counterexample:
  "spec_tokens (''key1'' @ [CHR 0x09]) = [''key1''] \<and>
   distinct [''key1''] \<and> \<not> like_site_id ''key1'' \<and>
   validate_api_key
       \<lparr>api_key = ''key1'' @ [CHR 0x09], api_quota = ''10'', auto_update = Update_none\<rparr>
     = (''key1'' @ [CHR 0x09], 1, None) \<and>
   (''key1'' @ [CHR 0x09], 1 :: nat, None :: string option)
     \<noteq> (join_comma [''key1''], length [''key1''], None) \<and>
   spec_tokens (''key1'' @ [CHR 0x09] @ '',key1'') = [''key1'', ''key1''] \<and>
   validate_api_key
       \<lparr>api_key = ''key1'' @ [CHR 0x09] @ '',key1'', api_quota = ''10'', auto_update = Update_none\<rparr>
     = (''key1'' @ [CHR 0x09] @ '',key1'', 2, None)"
proof -
  have a: "spec_tokens (''key1'' @ [CHR 0x09]) = [''key1'']" by code_simp
  have b: "\<not> like_site_id ''key1''" by code_simp
  have c: "validate_api_key
       \<lparr>api_key = ''key1'' @ [CHR 0x09], api_quota = ''10'', auto_update = Update_none\<rparr>
     = (''key1'' @ [CHR 0x09], 1, None)" by code_simp
  have d: "(''key1'' @ [CHR 0x09], 1 :: nat, None :: string option)
     \<noteq> (join_comma [''key1''], length [''key1''], None)" by simp
  have e: "spec_tokens (''key1'' @ [CHR 0x09] @ '',key1'') = [''key1'', ''key1'']" by code_simp
  have f: "validate_api_key
       \<lparr>api_key = ''key1'' @ [CHR 0x09] @ '',key1'', api_quota = ''10'', auto_update = Update_none\<rparr>
     = (''key1'' @ [CHR 0x09] @ '',key1'', 2, None)" by code_simp
  from a b c d e f show ?thesis by simp
qed

section \<open>Validation failures in the steps\<close>

lemma validate_api_key_reasons:
  "validate_api_key ui = (key, n, Some r) \<Longrightarrow>
     r = ''API key looks like a site ID'' \<or> r = ''Duplicate API key specified''"
  using check_keys_reason [of "[]" "tokens (api_key ui)" r]
  by (auto simp: validate_api_key_eq split: option.splits)

lemma check_quota_reasons:
  "check_quota qs = Inr (Some r) \<Longrightarrow>
     r = ''API limit is not a number'' \<or> r = ''API limit must be one or greater''"
  by (induction qs) (auto split: if_splits sum.splits)

lemma validate_api_limit_reasons:
  "validate_api_limit ui n = Inr (quota, Some r) \<Longrightarrow>
     r = ''API limit is not a number'' \<or> r = ''API limit must be one or greater'' \<or>
     r = ''There are more API limit counts entered than keys''"
  using check_quota_reasons [of "tokens (api_quota ui)" r]
  by (auto simp: validate_api_limit_def Let_def split: sum.splits option.splits if_splits)

lemma hard_limit_loop_reason:
  "hard_limit_loop hs to_set = Aborted r \<Longrightarrow> r = ''Hard limit is not a positive number''"
  by (induction hs arbitrary: to_set) (auto simp: Let_def split: if_splits sum.splits)

lemma async_step_dampen_None:
  "async_step_dampen c self None = (r, self') \<Longrightarrow> self' = self \<and> r \<noteq> Inr Create_entry"
  by (auto simp: async_step_dampen_def Let_def split: option.splits)

lemma init_submit_key_abort:
  "validate_api_key ui = (key, n, Some r) \<Longrightarrow> init_submit c self ui = (Inr (Abort r), self)"
  by (simp add: init_submit_def)

lemma init_submit_quota_abort:
  "validate_api_key ui = (key, n, None) \<Longrightarrow> validate_api_limit ui n = Inr (quota, Some r) \<Longrightarrow>
   init_submit c self ui = (Inr (Abort r), self)"
  by (simp add: init_submit_def)

lemma init_submit_quota_raise:
  "validate_api_key ui = (key, n, None) \<Longrightarrow> validate_api_limit ui n = Inl e \<Longrightarrow>
   init_submit c self ui = (Inl e, self)"
  by (simp add: init_submit_def)

lemma init_submit_hours_abort:
  "validate_api_key ui = (key, n, None) \<Longrightarrow> validate_api_limit ui n = Inr (quota, None) \<Longrightarrow>
   custom_hour_sensor ui < 1 \<or> 144 < custom_hour_sensor ui \<Longrightarrow>
   init_submit c self ui = (Inr (Abort ''Custom sensor not between 1 and 144''), self)"
  by (simp add: init_submit_def)

lemma init_submit_hard_limit:
  "validate_api_key ui = (key, n, None) \<Longrightarrow> validate_api_limit ui n = Inr (quota, None) \<Longrightarrow>
   1 \<le> custom_hour_sensor ui \<Longrightarrow> custom_hour_sensor ui \<le> 144 \<Longrightarrow>
   init_submit c self ui =
     (case hard_limit_loop (split_comma (hard_limit ui)) [] of
        Raised e \<Rightarrow> (Inl e, self)
      | Aborted abort \<Rightarrow> (Inr (Abort abort), self)
      | Proceed to_set \<Rightarrow>
          if n < length to_set
          then (Inr (Abort ''There are more hard limits entered than keys''), self)
          else (let all_config_data =
                      merged_config c (self_options self) ui key quota (join_comma to_set);
                    self' = self\<lparr>self_all_config_data := Some all_config_data\<rparr>
                in if config_damp ui = Some True
                   then async_step_dampen c self' None
                   else (Inr Create_entry, self'\<lparr>entry_options := all_config_data\<rparr>)))"
  by (simp add: init_submit_def)

lemma init_submit_validated:
  assumes "validate_api_key ui = (key, n, None)" "validate_api_limit ui n = Inr (quota, None)"
    "1 \<le> custom_hour_sensor ui" "custom_hour_sensor ui \<le> 144"
    "hard_limit_loop (split_comma (hard_limit ui)) [] = Proceed to_set" "length to_set \<le> n"
  shows "init_submit c self ui =
     (if config_damp ui = Some True
      then async_step_dampen c
             (self\<lparr>self_all_config_data :=
                    Some (merged_config c (self_options self) ui key quota (join_comma to_set))\<rparr>) None
      else (Inr Create_entry,
            self\<lparr>self_all_config_data :=
                   Some (merged_config c (self_options self) ui key quota (join_comma to_set)),
                 entry_options := merged_config c (self_options self) ui key quota (join_comma to_set)\<rparr>))"
  using assms by (simp add: init_submit_hard_limit Let_def)

lemma init_submit_entry_unchanged:
  assumes "fst (init_submit c self ui) \<noteq> Inr Create_entry"
  shows "entry_options (snd (init_submit c self ui)) = entry_options self"
proof -
  obtain key n a where k: "validate_api_key ui = (key, n, a)" by (cases "validate_api_key ui") auto
  show ?thesis
  proof (cases a)
    case (Some r)
    with k show ?thesis by (simp add: init_submit_key_abort)
  next
    case None
    note kn = k [unfolded None]
    show ?thesis
    proof (cases "validate_api_limit ui n")
      case (Inl e)
      with kn show ?thesis by (simp add: init_submit_quota_raise)
    next
      case (Inr p)
      obtain quota b where p: "p = (quota, b)" by (cases p) auto
      show ?thesis
      proof (cases b)
        case (Some r)
        with kn Inr p show ?thesis by (simp add: init_submit_quota_abort)
      next
        case None
        note qn = Inr [unfolded p None]
        show ?thesis
        proof (cases "custom_hour_sensor ui < 1 \<or> 144 < custom_hour_sensor ui")
          case True
          with kn qn show ?thesis by (simp add: init_submit_hours_abort)
        next
          case False
          then have h: "1 \<le> custom_hour_sensor ui" "custom_hour_sensor ui \<le> 144" by auto
          note eq = init_submit_hard_limit [OF kn qn h, of c self]
          show ?thesis
          proof (cases "hard_limit_loop (split_comma (hard_limit ui)) []")
            case (Raised e)
            with eq show ?thesis by simp
          next
            case (Aborted r)
            with eq show ?thesis by simp
          next
            case (Proceed to_set)
            show ?thesis
            proof (cases "n < length to_set")
              case True
              with eq Proceed show ?thesis by simp
            next
              case False
              show ?thesis
              proof (cases "config_damp ui = Some True")
                case True
                let ?s = "self\<lparr>self_all_config_data :=
                    Some (merged_config c (self_options self) ui key quota (join_comma to_set))\<rparr>"
                from eq Proceed False True
                have "init_submit c self ui = async_step_dampen c ?s None" by (simp add: Let_def)
                moreover obtain r s' where d: "async_step_dampen c ?s None = (r, s')"
                  by (cases "async_step_dampen c ?s None") auto
                moreover from async_step_dampen_None [OF d] have "s' = ?s" by simp
                ultimately show ?thesis by simp
              next
                case nd: False
                with eq Proceed False have "fst (init_submit c self ui) = Inr Create_entry"
                  by (simp add: Let_def)
                with assms show ?thesis by simp
              qed
            qed
          qed
        qed
      qed
    qed
  qed
qed

lemma async_step_init_Some:
  "async_step_init c self (Some ui) =
     (case init_submit c self ui of
        (Inl e, self') \<Rightarrow> (Show_form ''init'' (Some (Exception_text e)), self')
      | (Inr r, self') \<Rightarrow> (r, self'))"
  by (simp add: async_step_init_def)

lemma async_step_init_entry_unchanged:
  assumes "fst (async_step_init c self (Some ui)) \<noteq> Create_entry"
  shows "entry_options (snd (async_step_init c self (Some ui))) = entry_options self"
proof -
  have "fst (init_submit c self ui) \<noteq> Inr Create_entry"
    using assms by (auto simp: async_step_init_Some split: prod.splits sum.splits)
  from init_submit_entry_unchanged [OF this] show ?thesis
    by (auto simp: async_step_init_Some split: prod.splits sum.splits)
qed

lemma async_step_user_unchanged:
  "fst (async_step_user c cf user_input) \<noteq> Inr Create_entry \<Longrightarrow>
   snd (async_step_user c cf user_input) = cf"
  by (auto simp: async_step_user_def Let_def split: option.splits prod.splits sum.splits if_splits)


text \<open>
  What holds of the checks as the source writes them. When a check returns its reason (a
  key shaped like a site identifier, a repeated key, a quota token of which \<open>isnumeric\<close>
  fails or that is below one, more quota values than keys, a custom hour sensor out of
  range, a hard limit of which \<open>isdigit\<close> fails, more hard limits than keys), the step
  aborts with that reason and changes nothing; for the initial setup step the checks run
  when no entry exists yet. Whatever a submission does short of creating the entry, the
  entry's options (the list of entries) stay unchanged. This does not cover a token that
  passes \<open>isnumeric\<close> or \<open>isdigit\<close> and is no decimal numeral: there the conversion
  raises and no check returns a reason.
\<close>

lemma validation_failure_aborts_without_persisting:
  "(\<forall>key n r. validate_api_key ui = (key, n, Some r) \<longrightarrow>
      async_step_init c self (Some ui) = (Abort r, self) \<and>
      r \<in> set [''API key looks like a site ID'', ''Duplicate API key specified'']) \<and>
   (\<forall>key n quota r.
      validate_api_key ui = (key, n, None) \<and> validate_api_limit ui n = Inr (quota, Some r) \<longrightarrow>
      async_step_init c self (Some ui) = (Abort r, self) \<and>
      r \<in> set [''API limit is not a number'', ''API limit must be one or greater'',
                ''There are more API limit counts entered than keys'']) \<and>
   (\<forall>key n quota.
      validate_api_key ui = (key, n, None) \<and> validate_api_limit ui n = Inr (quota, None) \<and>
      (custom_hour_sensor ui < 1 \<or> 144 < custom_hour_sensor ui) \<longrightarrow>
      async_step_init c self (Some ui) = (Abort ''Custom sensor not between 1 and 144'', self)) \<and>
   (\<forall>key n quota r.
      validate_api_key ui = (key, n, None) \<and> validate_api_limit ui n = Inr (quota, None) \<and>
      1 \<le> custom_hour_sensor ui \<and> custom_hour_sensor ui \<le> 144 \<and>
      hard_limit_loop (split_comma (hard_limit ui)) [] = Aborted r \<longrightarrow>
      async_step_init c self (Some ui) = (Abort r, self) \<and>
      r = ''Hard limit is not a positive number'') \<and>
   (\<forall>key n quota to_set.
      validate_api_key ui = (key, n, None) \<and> validate_api_limit ui n = Inr (quota, None) \<and>
      1 \<le> custom_hour_sensor ui \<and> custom_hour_sensor ui \<le> 144 \<and>
      hard_limit_loop (split_comma (hard_limit ui)) [] = Proceed to_set \<and> n < length to_set \<longrightarrow>
      async_step_init c self (Some ui) =
        (Abort ''There are more hard limits entered than keys'', self)) \<and>
   (\<forall>key n r. current_entries cf = [] \<and> validate_api_key vi = (key, n, Some r) \<longrightarrow>
      async_step_user c cf (Some vi) = (Inr (Abort r), cf) \<and>
      r \<in> set [''API key looks like a site ID'', ''Duplicate API key specified'']) \<and>
   (\<forall>key n quota r.
      current_entries cf = [] \<and> validate_api_key vi = (key, n, None) \<and>
      validate_api_limit vi n = Inr (quota, Some r) \<longrightarrow>
      async_step_user c cf (Some vi) = (Inr (Abort r), cf) \<and>
      r \<in> set [''API limit is not a number'', ''API limit must be one or greater'',
                ''There are more API limit counts entered than keys'']) \<and>
   (fst (async_step_init c self (Some ui)) \<noteq> Create_entry \<longrightarrow>
      entry_options (snd (async_step_init c self (Some ui))) = entry_options self) \<and>
   (fst (async_step_user c cf (Some vi)) \<noteq> Inr Create_entry \<longrightarrow>
      snd (async_step_user c cf (Some vi)) = cf)"
proof (intro conjI allI impI)
  fix key n r
  assume a: "validate_api_key ui = (key, n, Some r)"
  then show "async_step_init c self (Some ui) = (Abort r, self)"
    by (simp add: async_step_init_Some init_submit_key_abort)
  from validate_api_key_reasons [OF a]
  show "r \<in> set [''API key looks like a site ID'', ''Duplicate API key specified'']" by auto
next
  fix key n quota r
  assume a: "validate_api_key ui = (key, n, None) \<and> validate_api_limit ui n = Inr (quota, Some r)"
  then show "async_step_init c self (Some ui) = (Abort r, self)"
    by (simp add: async_step_init_Some init_submit_quota_abort)
  from a validate_api_limit_reasons [of ui n quota r]
  show "r \<in> set [''API limit is not a number'', ''API limit must be one or greater'',
                ''There are more API limit counts entered than keys'']" by auto
next
  fix key n quota
  assume "validate_api_key ui = (key, n, None) \<and> validate_api_limit ui n = Inr (quota, None) \<and>
      (custom_hour_sensor ui < 1 \<or> 144 < custom_hour_sensor ui)"
  then show "async_step_init c self (Some ui) = (Abort ''Custom sensor not between 1 and 144'', self)"
    using init_submit_hours_abort [of ui key n quota c self] by (simp add: async_step_init_Some)
next
  fix key n quota r
  assume a: "validate_api_key ui = (key, n, None) \<and> validate_api_limit ui n = Inr (quota, None) \<and>
      1 \<le> custom_hour_sensor ui \<and> custom_hour_sensor ui \<le> 144 \<and>
      hard_limit_loop (split_comma (hard_limit ui)) [] = Aborted r"
  then show "async_step_init c self (Some ui) = (Abort r, self)"
    using init_submit_hard_limit [of ui key n quota c self] by (simp add: async_step_init_Some)
  from a hard_limit_loop_reason show "r = ''Hard limit is not a positive number''" by blast
next
  fix key n quota to_set
  assume "validate_api_key ui = (key, n, None) \<and> validate_api_limit ui n = Inr (quota, None) \<and>
      1 \<le> custom_hour_sensor ui \<and> custom_hour_sensor ui \<le> 144 \<and>
      hard_limit_loop (split_comma (hard_limit ui)) [] = Proceed to_set \<and> n < length to_set"
  then show "async_step_init c self (Some ui) =
        (Abort ''There are more hard limits entered than keys'', self)"
    using init_submit_hard_limit [of ui key n quota c self] by (simp add: async_step_init_Some)
next
  fix key n r
  assume a: "current_entries cf = [] \<and> validate_api_key vi = (key, n, Some r)"
  then show "async_step_user c cf (Some vi) = (Inr (Abort r), cf)"
    by (simp add: async_step_user_def)
  from a validate_api_key_reasons [of vi key n r]
  show "r \<in> set [''API key looks like a site ID'', ''Duplicate API key specified'']" by auto
next
  fix key n quota r
  assume a: "current_entries cf = [] \<and> validate_api_key vi = (key, n, None) \<and>
      validate_api_limit vi n = Inr (quota, Some r)"
  then show "async_step_user c cf (Some vi) = (Inr (Abort r), cf)"
    by (simp add: async_step_user_def)
  from a validate_api_limit_reasons [of vi n quota r]
  show "r \<in> set [''API limit is not a number'', ''API limit must be one or greater'',
                ''There are more API limit counts entered than keys'']" by auto
next
  assume "fst (async_step_init c self (Some ui)) \<noteq> Create_entry"
  then show "entry_options (snd (async_step_init c self (Some ui))) = entry_options self"
    by (rule async_step_init_entry_unchanged)
next
  assume "fst (async_step_user c cf (Some vi)) \<noteq> Inr Create_entry"
  then show "snd (async_step_user c cf (Some vi)) = cf"
    by (rule async_step_user_unchanged)
qed


lemma validation_failure_aborts_without_persisting_examples:
  "async_step_init example_names (new_options_flow default_damp)
       (Some (example_input ''abcd-0123-wxyz-9999'' ''10'' 1 ''100''))
     = (Abort ''API key looks like a site ID'', new_options_flow default_damp) \<and>
   async_step_init example_names (new_options_flow default_damp)
       (Some (example_input ''key1,key1'' ''10'' 1 ''100''))
     = (Abort ''Duplicate API key specified'', new_options_flow default_damp) \<and>
   async_step_init example_names (new_options_flow default_damp)
       (Some (example_input ''key1'' ''ten'' 1 ''100''))
     = (Abort ''API limit is not a number'', new_options_flow default_damp) \<and>
   async_step_init example_names (new_options_flow default_damp)
       (Some (example_input ''key1'' ''0'' 1 ''100''))
     = (Abort ''API limit must be one or greater'', new_options_flow default_damp) \<and>
   async_step_init example_names (new_options_flow default_damp)
       (Some (example_input ''key1'' ''10,20'' 1 ''100''))
     = (Abort ''There are more API limit counts entered than keys'', new_options_flow default_damp) \<and>
   async_step_init example_names (new_options_flow default_damp)
       (Some (example_input ''key1'' ''10'' 145 ''100''))
     = (Abort ''Custom sensor not between 1 and 144'', new_options_flow default_damp) \<and>
   async_step_init example_names (new_options_flow default_damp)
       (Some (example_input ''key1'' ''10'' 1 ''1e3''))
     = (Abort ''Hard limit is not a positive number'', new_options_flow default_damp) \<and>
   async_step_init example_names (new_options_flow default_damp)
       (Some (example_input ''key1'' ''10'' 1 ''100,200''))
     = (Abort ''There are more hard limits entered than keys'', new_options_flow default_damp) \<and>
   async_step_user example_names \<lparr>current_entries = []\<rparr>
       (Some \<lparr>api_key = ''key1,key1'', api_quota = ''10'', auto_update = Update_none\<rparr>)
     = (Inr (Abort ''Duplicate API key specified''), \<lparr>current_entries = []\<rparr>) \<and>
   async_step_user example_names \<lparr>current_entries = []\<rparr>
       (Some \<lparr>api_key = ''key1'', api_quota = ''10,20'', auto_update = Update_none\<rparr>)
     = (Inr (Abort ''There are more API limit counts entered than keys''), \<lparr>current_entries = []\<rparr>)"
proof -
  let ?s = "new_options_flow default_damp"
  let ?cf = "\<lparr>current_entries = []\<rparr>"
  let ?v1 = "\<lparr>api_key = ''key1,key1'', api_quota = ''10'', auto_update = Update_none\<rparr>"
  let ?v2 = "\<lparr>api_key = ''key1'', api_quota = ''10,20'', auto_update = Update_none\<rparr>"
  note inst = validation_failure_aborts_without_persisting
  have e: "current_entries ?cf = []" by simp
  have k1: "validate_api_key (example_input ''abcd-0123-wxyz-9999'' ''10'' 1 ''100'')
              = ([], 0, Some ''API key looks like a site ID'')" by code_simp
  have k2: "validate_api_key (example_input ''key1,key1'' ''10'' 1 ''100'')
              = ([], 0, Some ''Duplicate API key specified'')" by code_simp
  have k: "\<And>q h l. validate_api_key (example_input ''key1'' q h l) = (''key1'', 1, None)"
    by (simp add: validate_api_key_def example_input_def) code_simp
  have q1: "validate_api_limit (example_input ''key1'' ''ten'' 1 ''100'') 1
              = Inr ([], Some ''API limit is not a number'')" by code_simp
  have q2: "validate_api_limit (example_input ''key1'' ''0'' 1 ''100'') 1
              = Inr ([], Some ''API limit must be one or greater'')" by code_simp
  have q3: "validate_api_limit (example_input ''key1'' ''10,20'' 1 ''100'') 1
              = Inr ([], Some ''There are more API limit counts entered than keys'')" by code_simp
  have q: "\<And>h l. validate_api_limit (example_input ''key1'' ''10'' h l) 1 = Inr (''10'', None)"
    by (simp add: validate_api_limit_def example_input_def) code_simp
  have h1: "hard_limit_loop (split_comma (hard_limit (example_input ''key1'' ''10'' 1 ''1e3''))) []
              = Aborted ''Hard limit is not a positive number''" by code_simp
  have h2: "hard_limit_loop (split_comma (hard_limit (example_input ''key1'' ''10'' 1 ''100,200''))) []
              = Proceed [''100.0'', ''200.0'']" by code_simp
  have c: "custom_hour_sensor (example_input ''key1'' ''10'' 145 ''100'') = 145"
    "custom_hour_sensor (example_input ''key1'' ''10'' 1 ''1e3'') = 1"
    "custom_hour_sensor (example_input ''key1'' ''10'' 1 ''100,200'') = 1"
    by (simp_all add: example_input_def)
  have v1: "validate_api_key ?v1 = ([], 0, Some ''Duplicate API key specified'')" by code_simp
  have v2: "validate_api_key ?v2 = (''key1'', 1, None)" by code_simp
  have v3: "validate_api_limit ?v2 1
              = Inr ([], Some ''There are more API limit counts entered than keys'')" by code_simp
  note c1 = inst [THEN conjunct1, rule_format]
  note c2 = inst [THEN conjunct2, THEN conjunct1, rule_format]
  note c3 = inst [THEN conjunct2, THEN conjunct2, THEN conjunct1, rule_format]
  note c4 = inst [THEN conjunct2, THEN conjunct2, THEN conjunct2, THEN conjunct1, rule_format]
  note c5 = inst [THEN conjunct2, THEN conjunct2, THEN conjunct2, THEN conjunct2, THEN conjunct1,
      rule_format]
  note c6 = inst [THEN conjunct2, THEN conjunct2, THEN conjunct2, THEN conjunct2, THEN conjunct2,
      THEN conjunct1, rule_format]
  note c7 = inst [THEN conjunct2, THEN conjunct2, THEN conjunct2, THEN conjunct2, THEN conjunct2,
      THEN conjunct2, THEN conjunct1, rule_format]
  have A: "async_step_init example_names ?s (Some (example_input ''abcd-0123-wxyz-9999'' ''10'' 1 ''100''))
     = (Abort ''API key looks like a site ID'', ?s)"
    by (rule c1 [OF k1, THEN conjunct1])
  have B: "async_step_init example_names ?s (Some (example_input ''key1,key1'' ''10'' 1 ''100''))
     = (Abort ''Duplicate API key specified'', ?s)"
    by (rule c1 [OF k2, THEN conjunct1])
  have C: "async_step_init example_names ?s (Some (example_input ''key1'' ''ten'' 1 ''100''))
     = (Abort ''API limit is not a number'', ?s)"
    by (rule c2 [OF conjI [OF k q1], THEN conjunct1])
  have D: "async_step_init example_names ?s (Some (example_input ''key1'' ''0'' 1 ''100''))
     = (Abort ''API limit must be one or greater'', ?s)"
    by (rule c2 [OF conjI [OF k q2], THEN conjunct1])
  have E: "async_step_init example_names ?s (Some (example_input ''key1'' ''10,20'' 1 ''100''))
     = (Abort ''There are more API limit counts entered than keys'', ?s)"
    by (rule c2 [OF conjI [OF k q3], THEN conjunct1])
  have F: "async_step_init example_names ?s (Some (example_input ''key1'' ''10'' 145 ''100''))
     = (Abort ''Custom sensor not between 1 and 144'', ?s)"
    by (rule c3 [of _ "''key1''" 1 "''10''"]) (insert k q c, simp)
  have G: "async_step_init example_names ?s (Some (example_input ''key1'' ''10'' 1 ''1e3''))
     = (Abort ''Hard limit is not a positive number'', ?s)"
    by (rule c4 [of _ "''key1''" 1 "''10''", THEN conjunct1]) (insert k q c h1, simp)
  have H: "async_step_init example_names ?s (Some (example_input ''key1'' ''10'' 1 ''100,200''))
     = (Abort ''There are more hard limits entered than keys'', ?s)"
    by (rule c5 [of _ "''key1''" 1 "''10''" "[''100.0'', ''200.0'']"]) (insert k q c h2, simp)
  have I: "async_step_user example_names ?cf (Some ?v1)
     = (Inr (Abort ''Duplicate API key specified''), ?cf)"
    by (rule c6 [OF conjI [OF e v1], THEN conjunct1])
  have J: "async_step_user example_names ?cf (Some ?v2)
     = (Inr (Abort ''There are more API limit counts entered than keys''), ?cf)"
    by (rule c7 [OF conjI [OF e conjI [OF v2 v3]], THEN conjunct1])
  from A B C D E F G H I J show ?thesis by (intro conjI)
qed

section \<open>The main options step and the setup step\<close>

text \<open>The ways through the body of the main options step.\<close>

lemma init_submit_cases [case_names key_abort quota_raise quota_abort hours hard_raise hard_abort
    hard_many dampen create]:
  obtains
    (key_abort) key n r where "validate_api_key ui = (key, n, Some r)"
      "init_submit c self ui = (Inr (Abort r), self)"
  | (quota_raise) key n e where "validate_api_key ui = (key, n, None)"
      "validate_api_limit ui n = Inl e" "init_submit c self ui = (Inl e, self)"
  | (quota_abort) key n quota r where "validate_api_key ui = (key, n, None)"
      "validate_api_limit ui n = Inr (quota, Some r)" "init_submit c self ui = (Inr (Abort r), self)"
  | (hours) key n quota where "validate_api_key ui = (key, n, None)"
      "validate_api_limit ui n = Inr (quota, None)"
      "custom_hour_sensor ui < 1 \<or> 144 < custom_hour_sensor ui"
      "init_submit c self ui = (Inr (Abort ''Custom sensor not between 1 and 144''), self)"
  | (hard_raise) key n quota e where "validate_api_key ui = (key, n, None)"
      "validate_api_limit ui n = Inr (quota, None)"
      "1 \<le> custom_hour_sensor ui" "custom_hour_sensor ui \<le> 144"
      "hard_limit_loop (split_comma (hard_limit ui)) [] = Raised e"
      "init_submit c self ui = (Inl e, self)"
  | (hard_abort) key n quota where "validate_api_key ui = (key, n, None)"
      "validate_api_limit ui n = Inr (quota, None)"
      "1 \<le> custom_hour_sensor ui" "custom_hour_sensor ui \<le> 144"
      "hard_limit_loop (split_comma (hard_limit ui)) [] = Aborted ''Hard limit is not a positive number''"
      "init_submit c self ui = (Inr (Abort ''Hard limit is not a positive number''), self)"
  | (hard_many) key n quota to_set where "validate_api_key ui = (key, n, None)"
      "validate_api_limit ui n = Inr (quota, None)"
      "1 \<le> custom_hour_sensor ui" "custom_hour_sensor ui \<le> 144"
      "hard_limit_loop (split_comma (hard_limit ui)) [] = Proceed to_set" "n < length to_set"
      "init_submit c self ui = (Inr (Abort ''There are more hard limits entered than keys''), self)"
  | (dampen) key n quota to_set where "validate_api_key ui = (key, n, None)"
      "validate_api_limit ui n = Inr (quota, None)"
      "1 \<le> custom_hour_sensor ui" "custom_hour_sensor ui \<le> 144"
      "hard_limit_loop (split_comma (hard_limit ui)) [] = Proceed to_set" "length to_set \<le> n"
      "config_damp ui = Some True"
      "init_submit c self ui =
         async_step_dampen c
           (self\<lparr>self_all_config_data :=
                  Some (merged_config c (self_options self) ui key quota (join_comma to_set))\<rparr>) None"
  | (create) key n quota to_set where "validate_api_key ui = (key, n, None)"
      "validate_api_limit ui n = Inr (quota, None)"
      "1 \<le> custom_hour_sensor ui" "custom_hour_sensor ui \<le> 144"
      "hard_limit_loop (split_comma (hard_limit ui)) [] = Proceed to_set" "length to_set \<le> n"
      "config_damp ui \<noteq> Some True"
      "init_submit c self ui =
         (Inr Create_entry,
          self\<lparr>self_all_config_data :=
                 Some (merged_config c (self_options self) ui key quota (join_comma to_set)),
               entry_options := merged_config c (self_options self) ui key quota (join_comma to_set)\<rparr>)"
proof -
  obtain key n a where k: "validate_api_key ui = (key, n, a)" by (cases "validate_api_key ui") auto
  show thesis
  proof (cases a)
    case (Some r)
    with k show thesis using key_abort init_submit_key_abort by blast
  next
    case None
    note kn = k [unfolded None]
    show thesis
    proof (cases "validate_api_limit ui n")
      case (Inl e)
      with kn show thesis using quota_raise init_submit_quota_raise by blast
    next
      case (Inr p)
      obtain quota b where p: "p = (quota, b)" by (cases p) auto
      show thesis
      proof (cases b)
        case (Some r)
        with kn Inr p show thesis using quota_abort init_submit_quota_abort by blast
      next
        case None
        note qn = Inr [unfolded p None]
        show thesis
        proof (cases "custom_hour_sensor ui < 1 \<or> 144 < custom_hour_sensor ui")
          case True
          with kn qn show thesis using hours init_submit_hours_abort by blast
        next
          case False
          then have h: "1 \<le> custom_hour_sensor ui" "custom_hour_sensor ui \<le> 144" by auto
          note eq = init_submit_hard_limit [OF kn qn h, of c self]
          show thesis
          proof (cases "hard_limit_loop (split_comma (hard_limit ui)) []")
            case (Raised e)
            with eq have "init_submit c self ui = (Inl e, self)" by simp
            with kn qn h Raised show thesis using hard_raise by blast
          next
            case (Aborted r)
            then have r: "r = ''Hard limit is not a positive number''" by (rule hard_limit_loop_reason)
            from eq Aborted have "init_submit c self ui = (Inr (Abort r), self)" by simp
            with kn qn h Aborted r show thesis using hard_abort by blast
          next
            case (Proceed to_set)
            show thesis
            proof (cases "n < length to_set")
              case True
              with eq Proceed have "init_submit c self ui =
                  (Inr (Abort ''There are more hard limits entered than keys''), self)" by simp
              with kn qn h Proceed True show thesis using hard_many by blast
            next
              case False
              then have le: "length to_set \<le> n" by simp
              note v = init_submit_validated [OF kn qn h Proceed le, of c self]
              show thesis
              proof (cases "config_damp ui = Some True")
                case True
                with v kn qn h Proceed le show thesis using dampen [of key n quota to_set] by simp
              next
                case False
                with v kn qn h Proceed le show thesis using create [of key n quota to_set] by simp
              qed
            qed
          qed
        qed
      qed
    qed
  qed
qed

lemma async_step_dampen_None_eq:
  "async_step_dampen c self None =
     (case extant_missing (case self_all_config_data self of None \<Rightarrow> self_options self | Some d \<Rightarrow> d)
             [0..<24] of
        Some k \<Rightarrow> (Inl (KeyError k), self)
      | None \<Rightarrow> (Inr (Show_form ''dampen'' None), self))"
  by (simp add: async_step_dampen_def Let_def split: option.splits)

lemma extant_missing_None_iff:
  "extant_missing d fs = None \<longleftrightarrow> (\<forall>f\<in>set fs. d (damp_key f) \<noteq> None)"
  by (induction fs) auto

text \<open>
  C10. The initial setup step itself enforces the single instance: when an entry of the
  integration exists, it aborts with \<open>single_instance_allowed\<close> for every input, also for
  no input, before any validation, and creates or changes nothing.
\<close>

theorem single_instance_checked_first:
  "current_entries cf \<noteq> [] \<Longrightarrow>
   async_step_user c cf user_input = (Inr (Abort ''single_instance_allowed''), cf)"
  by (simp add: async_step_user_def)

theorem single_instance_checked_first_witness:
  "async_step_user example_names \<lparr>current_entries = [default_damp]\<rparr> None
     = (Inr (Abort ''single_instance_allowed''), \<lparr>current_entries = [default_damp]\<rparr>) \<and>
   async_step_user example_names \<lparr>current_entries = [default_damp]\<rparr>
       (Some \<lparr>api_key = ''abcd-0123-wxyz-9999'', api_quota = ''zero'', auto_update = Update_none\<rparr>)
     = (Inr (Abort ''single_instance_allowed''), \<lparr>current_entries = [default_damp]\<rparr>)"
proof -
  have e: "current_entries \<lparr>current_entries = [default_damp]\<rparr> \<noteq> []" by simp
  show ?thesis
    by (intro conjI) (rule single_instance_checked_first [OF e])+
qed


lemma merged_config_other:
  "k \<notin> overwritten c ui \<Longrightarrow> merged_config c opts ui key quota hard k = opts k"
  by (auto simp: merged_config_def overwritten_def Let_def split: option.splits)

lemma merged_config_dom: "dom opts \<subseteq> dom (merged_config c opts ui key quota hard)"
  by (auto simp: merged_config_def Let_def split: option.splits)

lemma merged_config_assigned:
  "k \<in> overwritten c ui \<Longrightarrow> merged_config c opts ui key quota hard k \<noteq> None"
  by (auto simp: merged_config_def overwritten_def Let_def split: option.splits if_splits)

lemma names_apart_distinct: "names_apart c \<Longrightarrow> distinct (option_names c)"
  by (simp add: names_apart_def)

lemma names_apart_damp:
  assumes "names_apart c" "factor < 24"
  shows "damp_key factor \<notin> set (option_names c)"
proof -
  from assms(1) have "\<forall>f\<in>set [0..<24]. damp_key f \<notin> set (option_names c)"
    unfolding names_apart_def list_all_iff by blast
  with assms(2) show ?thesis by simp
qed

lemma overwritten_subset: "overwritten c ui \<subseteq> set (option_names c)"
  by (auto simp: overwritten_def option_names_def split: if_splits)

lemma merged_config_hours:
  assumes "names_apart c"
  shows "merged_config c opts ui key quota hard (CUSTOM_HOUR_SENSOR c)
           = Some (VInt (custom_hour_sensor ui))"
proof -
  from names_apart_distinct [OF assms]
  have "CUSTOM_HOUR_SENSOR c \<notin> {HARD_LIMIT_API c, SITE_DAMP c, AUTO_UPDATE c, KEY_ESTIMATE c,
          BRK_ESTIMATE c, BRK_ESTIMATE10 c, BRK_ESTIMATE90 c, BRK_HALFHOURLY c, BRK_HOURLY c,
          BRK_SITE c, BRK_SITE_DETAILED c}"
    by (auto simp: option_names_def)
  then show ?thesis
    by (auto simp: merged_config_def Let_def split: option.splits)
qed

lemma snd_async_step_dampen_None: "snd (async_step_dampen c self None) = self"
  by (simp add: async_step_dampen_None_eq split: option.splits)

lemma fst_async_step_dampen_None:
  "fst (async_step_dampen c self None) = Inr r \<Longrightarrow> r = Show_form ''dampen'' None"
  by (auto simp: async_step_dampen_None_eq split: option.splits)

text \<open>
  C8. Once the key and quota checks have passed, the main options step aborts with the
  out-of-range reason exactly when the submitted custom hour sensor is not between 1 and
  144 (both included), and then changes nothing; a value in the range is written
  unchanged to the record of a submission that passes the remaining checks. So 0 and 145
  are rejected, 1 and 144 are accepted.
\<close>

theorem custom_hour_sensor_bounds:
  assumes "validate_api_key ui = (key, n, None)" and "validate_api_limit ui n = Inr (quota, None)"
  shows "(fst (async_step_init c self (Some ui)) = Abort ''Custom sensor not between 1 and 144'')
           = (\<not> (1 \<le> custom_hour_sensor ui \<and> custom_hour_sensor ui \<le> 144)) \<and>
         (\<not> (1 \<le> custom_hour_sensor ui \<and> custom_hour_sensor ui \<le> 144) \<longrightarrow>
            snd (async_step_init c self (Some ui)) = self) \<and>
         (\<forall>to_set. 1 \<le> custom_hour_sensor ui \<and> custom_hour_sensor ui \<le> 144 \<and> names_apart c \<and>
            hard_limit_loop (split_comma (hard_limit ui)) [] = Proceed to_set \<and> length to_set \<le> n \<longrightarrow>
            (\<exists>m. self_all_config_data (snd (async_step_init c self (Some ui))) = Some m \<and>
                 m (CUSTOM_HOUR_SENSOR c) = Some (VInt (custom_hour_sensor ui))))"
proof (intro conjI allI impI)
  show "(fst (async_step_init c self (Some ui)) = Abort ''Custom sensor not between 1 and 144'')
           = (\<not> (1 \<le> custom_hour_sensor ui \<and> custom_hour_sensor ui \<le> 144))"
  proof (cases rule: init_submit_cases [of ui c self])
    case (dampen key n quota to_set)
    have "(\<exists>e. fst (async_step_dampen c
           (self\<lparr>self_all_config_data :=
                  Some (merged_config c (self_options self) ui key quota (join_comma to_set))\<rparr>) None) = Inl e)
        \<or> fst (async_step_dampen c
           (self\<lparr>self_all_config_data :=
                  Some (merged_config c (self_options self) ui key quota (join_comma to_set))\<rparr>) None)
            = Inr (Show_form ''dampen'' None)"
      by (simp add: async_step_dampen_None_eq split: option.splits)
    with dampen show ?thesis
      by (auto simp: async_step_init_Some split: prod.splits sum.splits)
  qed (use assms in \<open>auto simp: async_step_init_Some\<close>)
next
  assume "\<not> (1 \<le> custom_hour_sensor ui \<and> custom_hour_sensor ui \<le> 144)"
  then have "custom_hour_sensor ui < 1 \<or> 144 < custom_hour_sensor ui" by auto
  from init_submit_hours_abort [OF assms this, of c self]
  show "snd (async_step_init c self (Some ui)) = self"
    by (simp add: async_step_init_Some)
next
  fix to_set
  assume a: "1 \<le> custom_hour_sensor ui \<and> custom_hour_sensor ui \<le> 144 \<and> names_apart c \<and>
            hard_limit_loop (split_comma (hard_limit ui)) [] = Proceed to_set \<and> length to_set \<le> n"
  let ?m = "merged_config c (self_options self) ui key quota (join_comma to_set)"
  from a have v: "init_submit c self ui =
     (if config_damp ui = Some True
      then async_step_dampen c (self\<lparr>self_all_config_data := Some ?m\<rparr>) None
      else (Inr Create_entry, self\<lparr>self_all_config_data := Some ?m, entry_options := ?m\<rparr>))"
    using init_submit_validated [OF assms, of to_set c self] by simp
  have "self_all_config_data (snd (init_submit c self ui)) = Some ?m"
    by (simp add: v snd_async_step_dampen_None)
  then have "self_all_config_data (snd (async_step_init c self (Some ui))) = Some ?m"
    by (auto simp: async_step_init_Some split: prod.splits sum.splits)
  moreover from a have "?m (CUSTOM_HOUR_SENSOR c) = Some (VInt (custom_hour_sensor ui))"
    by (simp add: merged_config_hours)
  ultimately show "\<exists>m. self_all_config_data (snd (async_step_init c self (Some ui))) = Some m \<and>
                 m (CUSTOM_HOUR_SENSOR c) = Some (VInt (custom_hour_sensor ui))"
    by blast
qed


lemma names_apart_example: "names_apart example_names"
  by code_simp

lemma example_input_key1:
  "validate_api_key (example_input ''key1'' q h l) = (''key1'', 1, None)"
  by (simp add: validate_api_key_def example_input_def) code_simp

lemma example_input_quota10:
  "validate_api_limit (example_input k ''10'' h l) 1 = Inr (''10'', None)"
  by (simp add: validate_api_limit_def example_input_def) code_simp

lemma example_input_hard100:
  "hard_limit_loop (split_comma (hard_limit (example_input k q h ''100''))) [] = Proceed [''100.0'']"
  by (simp add: example_input_def) code_simp

theorem custom_hour_sensor_bounds_witness:
  "fst (async_step_init example_names (new_options_flow default_damp)
          (Some (example_input ''key1'' ''10'' 0 ''100'')))
     = Abort ''Custom sensor not between 1 and 144'' \<and>
   fst (async_step_init example_names (new_options_flow default_damp)
          (Some (example_input ''key1'' ''10'' 145 ''100'')))
     = Abort ''Custom sensor not between 1 and 144'' \<and>
   fst (async_step_init example_names (new_options_flow default_damp)
          (Some (example_input ''key1'' ''10'' 1 ''100'')))
     \<noteq> Abort ''Custom sensor not between 1 and 144'' \<and>
   fst (async_step_init example_names (new_options_flow default_damp)
          (Some (example_input ''key1'' ''10'' 144 ''100'')))
     \<noteq> Abort ''Custom sensor not between 1 and 144'' \<and>
   (\<exists>m. self_all_config_data (snd (async_step_init example_names (new_options_flow default_damp)
          (Some (example_input ''key1'' ''10'' 1 ''100'')))) = Some m \<and>
        m ''customhoursensor'' = Some (VInt 1)) \<and>
   (\<exists>m. self_all_config_data (snd (async_step_init example_names (new_options_flow default_damp)
          (Some (example_input ''key1'' ''10'' 144 ''100'')))) = Some m \<and>
        m ''customhoursensor'' = Some (VInt 144))"
proof -
  let ?s = "new_options_flow default_damp"
  have c: "\<And>h. custom_hour_sensor (example_input ''key1'' ''10'' h ''100'') = h"
    by (simp add: example_input_def)
  have n: "CUSTOM_HOUR_SENSOR example_names = ''customhoursensor''"
    by (simp add: example_names_def)
  note i0 = custom_hour_sensor_bounds [where ui = "example_input ''key1'' ''10'' 0 ''100''"
      and c = example_names and self = ?s, OF example_input_key1 example_input_quota10]
  note i145 = custom_hour_sensor_bounds [where ui = "example_input ''key1'' ''10'' 145 ''100''"
      and c = example_names and self = ?s, OF example_input_key1 example_input_quota10]
  note i1 = custom_hour_sensor_bounds [where ui = "example_input ''key1'' ''10'' 1 ''100''"
      and c = example_names and self = ?s, OF example_input_key1 example_input_quota10]
  note i144 = custom_hour_sensor_bounds [where ui = "example_input ''key1'' ''10'' 144 ''100''"
      and c = example_names and self = ?s, OF example_input_key1 example_input_quota10]
  have A: "fst (async_step_init example_names ?s (Some (example_input ''key1'' ''10'' 0 ''100'')))
     = Abort ''Custom sensor not between 1 and 144''"
    using i0 [THEN conjunct1] by (simp add: c)
  have B: "fst (async_step_init example_names ?s (Some (example_input ''key1'' ''10'' 145 ''100'')))
     = Abort ''Custom sensor not between 1 and 144''"
    using i145 [THEN conjunct1] by (simp add: c)
  have C: "fst (async_step_init example_names ?s (Some (example_input ''key1'' ''10'' 1 ''100'')))
     \<noteq> Abort ''Custom sensor not between 1 and 144''"
    using i1 [THEN conjunct1] by (simp add: c)
  have D: "fst (async_step_init example_names ?s (Some (example_input ''key1'' ''10'' 144 ''100'')))
     \<noteq> Abort ''Custom sensor not between 1 and 144''"
    using i144 [THEN conjunct1] by (simp add: c)
  have E: "\<exists>m. self_all_config_data (snd (async_step_init example_names ?s
          (Some (example_input ''key1'' ''10'' 1 ''100'')))) = Some m \<and>
        m ''customhoursensor'' = Some (VInt 1)"
    using i1 [THEN conjunct2, THEN conjunct2, rule_format, of "[''100.0'']"]
      names_apart_example example_input_hard100 [of "''key1''" "''10''" 1]
    by (simp add: c n)
  have F: "\<exists>m. self_all_config_data (snd (async_step_init example_names ?s
          (Some (example_input ''key1'' ''10'' 144 ''100'')))) = Some m \<and>
        m ''customhoursensor'' = Some (VInt 144)"
    using i144 [THEN conjunct2, THEN conjunct2, rule_format, of "[''100.0'']"]
      names_apart_example example_input_hard100 [of "''key1''" "''10''" 144]
    by (simp add: c n)
  from A B C D E F show ?thesis by (intro conjI)
qed


lemma default_damp_slot: "factor < 24 \<Longrightarrow> default_damp (damp_key factor) = Some (VFloat 1)"
proof -
  have "list_all (\<lambda>f. default_damp (damp_key f) = Some (VFloat 1)) [0..<24]"
    by code_simp
  then have "\<forall>f\<in>set [0..<24]. default_damp (damp_key f) = Some (VFloat 1)"
    unfolding list_all_iff .
  then show "factor < 24 \<Longrightarrow> default_damp (damp_key factor) = Some (VFloat 1)" by simp
qed

lemma merged_config_damp:
  "names_apart c \<Longrightarrow> factor < 24 \<Longrightarrow>
   merged_config c opts ui key quota hard (damp_key factor) = opts (damp_key factor)"
  using names_apart_damp [of c factor] overwritten_subset [of c ui]
  by (intro merged_config_other) auto

text \<open>
  C2. For a submission to the main options step that passes every check, the record the
  step builds is the existing record (\<open>self._options\<close>) with the validated fields
  assigned: a key that is not assigned keeps its value, every assigned key is present, no
  key is lost, and, the option names being what they are (no dampening slot among them),
  the 24 dampening slots keep their values. This record is what the step stores when the
  dampening step is not requested.
\<close>

theorem merge_overwrites_only_validated_fields:
  assumes "validate_api_key ui = (key, n, None)" and "validate_api_limit ui n = Inr (quota, None)"
    and "1 \<le> custom_hour_sensor ui" and "custom_hour_sensor ui \<le> 144"
    and "hard_limit_loop (split_comma (hard_limit ui)) [] = Proceed to_set" and "length to_set \<le> n"
  shows "self_all_config_data (snd (async_step_init c self (Some ui)))
           = Some (merged_config c (self_options self) ui key quota (join_comma to_set)) \<and>
         (config_damp ui \<noteq> Some True \<longrightarrow>
            fst (async_step_init c self (Some ui)) = Create_entry \<and>
            entry_options (snd (async_step_init c self (Some ui)))
              = merged_config c (self_options self) ui key quota (join_comma to_set)) \<and>
         (\<forall>k. k \<notin> overwritten c ui \<longrightarrow>
            merged_config c (self_options self) ui key quota (join_comma to_set) k
              = self_options self k) \<and>
         (\<forall>k\<in>overwritten c ui.
            merged_config c (self_options self) ui key quota (join_comma to_set) k \<noteq> None) \<and>
         dom (self_options self)
           \<subseteq> dom (merged_config c (self_options self) ui key quota (join_comma to_set)) \<and>
         (names_apart c \<longrightarrow>
            (\<forall>factor<24.
               merged_config c (self_options self) ui key quota (join_comma to_set) (damp_key factor)
                 = self_options self (damp_key factor)))"
proof -
  let ?m = "merged_config c (self_options self) ui key quota (join_comma to_set)"
  note v = init_submit_validated [OF assms, of c self]
  have "self_all_config_data (snd (init_submit c self ui)) = Some ?m"
    by (simp add: v snd_async_step_dampen_None)
  then have 1: "self_all_config_data (snd (async_step_init c self (Some ui))) = Some ?m"
    by (auto simp: async_step_init_Some split: prod.splits sum.splits)
  have 2: "config_damp ui \<noteq> Some True \<longrightarrow>
            fst (async_step_init c self (Some ui)) = Create_entry \<and>
            entry_options (snd (async_step_init c self (Some ui))) = ?m"
    by (simp add: v async_step_init_Some)
  have 3: "\<forall>k. k \<notin> overwritten c ui \<longrightarrow> ?m k = self_options self k"
    by (simp add: merged_config_other)
  have 4: "\<forall>k\<in>overwritten c ui. ?m k \<noteq> None"
    by (simp add: merged_config_assigned)
  have 5: "dom (self_options self) \<subseteq> dom ?m"
    by (rule merged_config_dom)
  have 6: "names_apart c \<longrightarrow> (\<forall>factor<24. ?m (damp_key factor) = self_options self (damp_key factor))"
    by (simp add: merged_config_damp)
  from 1 2 3 4 5 6 show ?thesis by (intro conjI)
qed

text \<open>
  C7. The main options step goes on to the dampening step only when the submission
  carries the per-hour configuration flag set to true; whether site-level dampening was
  enabled, or is being disabled, plays no part in the step. Every other submission
  that passes all checks stores the merged record and ends the flow; one with the flag
  set shows the dampening form (the record holding all 24 slots) and stores nothing yet.
\<close>

theorem dampening_step_only_on_request:
  "(\<forall>e. fst (async_step_init c self (Some ui)) = Show_form ''dampen'' e \<longrightarrow>
      config_damp ui = Some True) \<and>
   (\<forall>key n quota to_set.
      validate_api_key ui = (key, n, None) \<and> validate_api_limit ui n = Inr (quota, None) \<and>
      1 \<le> custom_hour_sensor ui \<and> custom_hour_sensor ui \<le> 144 \<and>
      hard_limit_loop (split_comma (hard_limit ui)) [] = Proceed to_set \<and> length to_set \<le> n \<and>
      config_damp ui \<noteq> Some True \<longrightarrow>
      async_step_init c self (Some ui) =
        (Create_entry,
         self\<lparr>self_all_config_data :=
                Some (merged_config c (self_options self) ui key quota (join_comma to_set)),
              entry_options := merged_config c (self_options self) ui key quota (join_comma to_set)\<rparr>)) \<and>
   (\<forall>key n quota to_set.
      validate_api_key ui = (key, n, None) \<and> validate_api_limit ui n = Inr (quota, None) \<and>
      1 \<le> custom_hour_sensor ui \<and> custom_hour_sensor ui \<le> 144 \<and>
      hard_limit_loop (split_comma (hard_limit ui)) [] = Proceed to_set \<and> length to_set \<le> n \<and>
      config_damp ui = Some True \<and>
      (\<forall>factor<24. merged_config c (self_options self) ui key quota (join_comma to_set)
                      (damp_key factor) \<noteq> None) \<longrightarrow>
      async_step_init c self (Some ui) =
        (Show_form ''dampen'' None,
         self\<lparr>self_all_config_data :=
                Some (merged_config c (self_options self) ui key quota (join_comma to_set))\<rparr>))"
proof (intro conjI allI impI)
  fix e
  assume a: "fst (async_step_init c self (Some ui)) = Show_form ''dampen'' e"
  show "config_damp ui = Some True"
  proof (cases rule: init_submit_cases [of ui c self])
    case (dampen key n quota to_set)
    then show ?thesis by simp
  qed (use a in \<open>auto simp: async_step_init_Some\<close>)
next
  fix key n quota to_set
  assume "validate_api_key ui = (key, n, None) \<and> validate_api_limit ui n = Inr (quota, None) \<and>
      1 \<le> custom_hour_sensor ui \<and> custom_hour_sensor ui \<le> 144 \<and>
      hard_limit_loop (split_comma (hard_limit ui)) [] = Proceed to_set \<and> length to_set \<le> n \<and>
      config_damp ui \<noteq> Some True"
  then show "async_step_init c self (Some ui) =
        (Create_entry,
         self\<lparr>self_all_config_data :=
                Some (merged_config c (self_options self) ui key quota (join_comma to_set)),
              entry_options := merged_config c (self_options self) ui key quota (join_comma to_set)\<rparr>)"
    using init_submit_validated [of ui key n quota to_set c self]
    by (simp add: async_step_init_Some)
next
  fix key n quota to_set
  let ?m = "merged_config c (self_options self) ui key quota (join_comma to_set)"
  assume a: "validate_api_key ui = (key, n, None) \<and> validate_api_limit ui n = Inr (quota, None) \<and>
      1 \<le> custom_hour_sensor ui \<and> custom_hour_sensor ui \<le> 144 \<and>
      hard_limit_loop (split_comma (hard_limit ui)) [] = Proceed to_set \<and> length to_set \<le> n \<and>
      config_damp ui = Some True \<and> (\<forall>factor<24. ?m (damp_key factor) \<noteq> None)"
  then have "extant_missing ?m [0..<24] = None"
    by (simp add: extant_missing_None_iff)
  then have "async_step_dampen c (self\<lparr>self_all_config_data := Some ?m\<rparr>) None
               = (Inr (Show_form ''dampen'' None), self\<lparr>self_all_config_data := Some ?m\<rparr>)"
    by (simp add: async_step_dampen_None_eq)
  with a show "async_step_init c self (Some ui) =
        (Show_form ''dampen'' None, self\<lparr>self_all_config_data := Some ?m\<rparr>)"
    using init_submit_validated [of ui key n quota to_set c self]
    by (simp add: async_step_init_Some)
qed


theorem merge_overwrites_only_validated_fields_witness:
  "fst (async_step_init example_names (new_options_flow (default_damp(''other'' \<mapsto> VStr ''kept'')))
          (Some (example_input ''key1'' ''10'' 1 ''100''))) = Create_entry \<and>
   entry_options (snd (async_step_init example_names
          (new_options_flow (default_damp(''other'' \<mapsto> VStr ''kept'')))
          (Some (example_input ''key1'' ''10'' 1 ''100'')))) ''other'' = Some (VStr ''kept'') \<and>
   entry_options (snd (async_step_init example_names
          (new_options_flow (default_damp(''other'' \<mapsto> VStr ''kept'')))
          (Some (example_input ''key1'' ''10'' 1 ''100'')))) (damp_key 7) = Some (VFloat 1) \<and>
   entry_options (snd (async_step_init example_names
          (new_options_flow (default_damp(''other'' \<mapsto> VStr ''kept'')))
          (Some (example_input ''key1'' ''10'' 1 ''100'')))) ''api_key'' \<noteq> None"
proof -
  let ?s = "new_options_flow (default_damp(''other'' \<mapsto> VStr ''kept''))"
  let ?ui = "example_input ''key1'' ''10'' 1 ''100''"
  let ?m = "merged_config example_names (self_options ?s) ?ui ''key1'' ''10'' (join_comma [''100.0''])"
  have h: "1 \<le> custom_hour_sensor ?ui" "custom_hour_sensor ?ui \<le> 144"
    by (simp_all add: example_input_def)
  have l: "length [''100.0''] \<le> (1::nat)" by simp
  have d: "config_damp ?ui \<noteq> Some True" by (simp add: example_input_def)
  note inst = merge_overwrites_only_validated_fields [where c = example_names and self = ?s,
      OF example_input_key1 example_input_quota10 h example_input_hard100 l]
  from inst d have A: "fst (async_step_init example_names ?s (Some ?ui)) = Create_entry"
    and E: "entry_options (snd (async_step_init example_names ?s (Some ?ui))) = ?m"
    by blast+
  have o: "''other'' \<notin> overwritten example_names ?ui"
    by (simp add: overwritten_def example_names_def)
  from inst o have "?m ''other'' = self_options ?s ''other''" by blast
  then have B: "?m ''other'' = Some (VStr ''kept'')" by (simp add: new_options_flow_def)
  have ne: "damp_key 7 \<noteq> ''other''" by code_simp
  from inst names_apart_example have "?m (damp_key 7) = self_options ?s (damp_key 7)" by simp
  then have C: "?m (damp_key 7) = Some (VFloat 1)"
    using ne by (simp add: new_options_flow_def default_damp_slot)
  have "''api_key'' \<in> overwritten example_names ?ui"
    by (simp add: overwritten_def example_names_def)
  with inst have D: "?m ''api_key'' \<noteq> None" by blast
  from A B C D show ?thesis by (simp add: E)
qed

theorem dampening_step_only_on_request_witness:
  "fst (async_step_init example_names (new_options_flow default_damp)
          (Some (example_input ''key1'' ''10'' 1 ''100''))) = Create_entry \<and>
   async_step_init example_names (new_options_flow default_damp)
          (Some ((example_input ''key1'' ''10'' 1 ''100'')\<lparr>config_damp := Some True\<rparr>))
     = (Show_form ''dampen'' None,
        (new_options_flow default_damp)\<lparr>self_all_config_data :=
           Some (merged_config example_names default_damp
                   ((example_input ''key1'' ''10'' 1 ''100'')\<lparr>config_damp := Some True\<rparr>)
                   ''key1'' ''10'' ''100.0'')\<rparr>)"
proof -
  let ?s = "new_options_flow default_damp"
  let ?ui = "example_input ''key1'' ''10'' 1 ''100''"
  let ?vi = "(example_input ''key1'' ''10'' 1 ''100'')\<lparr>config_damp := Some True\<rparr>"
  let ?m = "merged_config example_names (self_options ?s) ?vi ''key1'' ''10'' (join_comma [''100.0''])"
  note inst = dampening_step_only_on_request [where c = example_names and self = ?s]
  have h: "1 \<le> custom_hour_sensor ?ui" "custom_hour_sensor ?ui \<le> 144"
    "1 \<le> custom_hour_sensor ?vi" "custom_hour_sensor ?vi \<le> 144"
    by (simp_all add: example_input_def)
  have l: "length [''100.0''] \<le> (1::nat)" by simp
  have d: "config_damp ?ui \<noteq> Some True" "config_damp ?vi = Some True"
    by (simp_all add: example_input_def)
  have k: "validate_api_key ?vi = (''key1'', 1, None)"
    using example_input_key1 [of "''10''" 1 "''100''"] by (simp add: validate_api_key_def)
  have q: "validate_api_limit ?vi 1 = Inr (''10'', None)"
    using example_input_quota10 [of "''key1''" 1 "''100''"] by (simp add: validate_api_limit_def)
  have t: "hard_limit_loop (split_comma (hard_limit ?vi)) [] = Proceed [''100.0'']"
    using example_input_hard100 [of "''key1''" "''10''" 1] by simp
  have "async_step_init example_names ?s (Some ?ui) =
        (Create_entry,
         ?s\<lparr>self_all_config_data :=
                Some (merged_config example_names (self_options ?s) ?ui ''key1'' ''10''
                        (join_comma [''100.0''])),
              entry_options := merged_config example_names (self_options ?s) ?ui ''key1'' ''10''
                        (join_comma [''100.0''])\<rparr>)"
    by (rule inst [where ui = ?ui, THEN conjunct2, THEN conjunct1, rule_format,
          of "''key1''" 1 "''10''" "[''100.0'']"])
       (intro conjI example_input_key1 example_input_quota10 h example_input_hard100 l d)
  then have A: "fst (async_step_init example_names ?s (Some ?ui)) = Create_entry" by simp
  have slots: "\<forall>factor<24. ?m (damp_key factor) \<noteq> None"
    using names_apart_example
    by (simp add: merged_config_damp new_options_flow_def default_damp_slot)
  have "async_step_init example_names ?s (Some ?vi) =
        (Show_form ''dampen'' None, ?s\<lparr>self_all_config_data := Some ?m\<rparr>)"
    by (rule inst [where ui = ?vi, THEN conjunct2, THEN conjunct2, rule_format,
          of "''key1''" 1 "''10''" "[''100.0'']"])
       (intro conjI k q h t l d slots)
  then have B: "async_step_init example_names ?s (Some ?vi) =
        (Show_form ''dampen'' None,
         ?s\<lparr>self_all_config_data :=
           Some (merged_config example_names default_damp ?vi ''key1'' ''10'' ''100.0'')\<rparr>)"
    by (simp add: new_options_flow_def)
  from A B show ?thesis by (intro conjI)
qed

section \<open>The dampening step\<close>

lemma assign_damp_None_iff:
  "fst (assign_damp d ui fs) = None \<longleftrightarrow> (\<forall>f\<in>set fs. ui (damp_key f) \<noteq> None)"
  by (induction fs arbitrary: d) (auto split: option.splits)

lemma assign_damp_result:
  "fst (assign_damp d ui fs) = None \<Longrightarrow>
   snd (assign_damp d ui fs) k = (if k \<in> damp_key ` set fs then ui k else d k)"
proof (induction fs arbitrary: d)
  case Nil
  then show ?case by simp
next
  case (Cons f fs)
  from Cons.prems obtain v where v: "ui (damp_key f) = Some v"
    by (auto split: option.splits)
  with Cons.prems have n: "fst (assign_damp (d(damp_key f \<mapsto> v)) ui fs) = None" by simp
  have step: "snd (assign_damp d ui (f # fs)) k = snd (assign_damp (d(damp_key f \<mapsto> v)) ui fs) k"
    using v by simp
  have ih: "snd (assign_damp (d(damp_key f \<mapsto> v)) ui fs) k =
              (if k \<in> damp_key ` set fs then ui k else (d(damp_key f \<mapsto> v)) k)"
    by (rule Cons.IH [OF n])
  show ?case unfolding step ih using v by auto
qed

lemma async_step_dampen_Some_eq:
  "async_step_dampen c self (Some ui) =
     (let d0 = (case self_all_config_data self of None \<Rightarrow> self_options self | Some d \<Rightarrow> d)
      in if extant_missing d0 [0..<24] \<noteq> None
         then (Inl (KeyError (the (extant_missing d0 [0..<24]))), self)
         else if fst (assign_damp d0 ui [0..<24]) \<noteq> None
         then (Inr (Show_form ''dampen'' (Some Unknown)),
               self\<lparr>self_all_config_data :=
                      map_option (\<lambda>_. snd (assign_damp d0 ui [0..<24])) (self_all_config_data self)\<rparr>)
         else (Inr Create_entry,
               self\<lparr>entry_options := (snd (assign_damp d0 ui [0..<24]))(SITE_DAMP c \<mapsto> VBool False),
                    self_all_config_data :=
                      map_option (\<lambda>_. (snd (assign_damp d0 ui [0..<24]))(SITE_DAMP c \<mapsto> VBool False))
                        (self_all_config_data self)\<rparr>))"
  by (auto simp: async_step_dampen_def Let_def split: option.splits prod.splits)

text \<open>
  C6. A submission to the dampening step succeeds exactly when the record being edited
  holds all 24 slots and the input gives all 24 factors. The record it then stores has
  every slot \<open>damp00\<close> .. \<open>damp23\<close> set to the submitted factor and the site-level
  dampening flag set to \<open>False\<close>, whatever the flag was (the name of the flag not being the
  name of a slot); every other key keeps the value it had in the record being edited.
\<close>

theorem dampen_step_sets_slots_and_clears_flag:
  "(fst (async_step_dampen c self (Some ui)) = Inr Create_entry) =
     ((\<forall>factor<24. (case self_all_config_data self of None \<Rightarrow> self_options self | Some d \<Rightarrow> d)
                      (damp_key factor) \<noteq> None) \<and>
      (\<forall>factor<24. ui (damp_key factor) \<noteq> None)) \<and>
   (fst (async_step_dampen c self (Some ui)) = Inr Create_entry \<longrightarrow>
      entry_options (snd (async_step_dampen c self (Some ui))) (SITE_DAMP c) = Some (VBool False) \<and>
      (\<forall>factor<24. damp_key factor \<noteq> SITE_DAMP c \<longrightarrow>
         entry_options (snd (async_step_dampen c self (Some ui))) (damp_key factor)
           = ui (damp_key factor)) \<and>
      (\<forall>k. k \<noteq> SITE_DAMP c \<and> k \<notin> damp_key ` {0..<24} \<longrightarrow>
         entry_options (snd (async_step_dampen c self (Some ui))) k
           = (case self_all_config_data self of None \<Rightarrow> self_options self | Some d \<Rightarrow> d) k))"
proof -
  let ?d0 = "case self_all_config_data self of None \<Rightarrow> self_options self | Some d \<Rightarrow> d"
  have e: "extant_missing ?d0 [0..<24] = None \<longleftrightarrow> (\<forall>factor<24. ?d0 (damp_key factor) \<noteq> None)"
    by (auto simp: extant_missing_None_iff)
  have a: "fst (assign_damp ?d0 ui [0..<24]) = None \<longleftrightarrow> (\<forall>factor<24. ui (damp_key factor) \<noteq> None)"
    by (auto simp: assign_damp_None_iff)
  have 1: "(fst (async_step_dampen c self (Some ui)) = Inr Create_entry) =
     ((\<forall>factor<24. ?d0 (damp_key factor) \<noteq> None) \<and> (\<forall>factor<24. ui (damp_key factor) \<noteq> None))"
    unfolding e [symmetric] a [symmetric]
    by (simp add: async_step_dampen_Some_eq Let_def)
  have 2: "entry_options (snd (async_step_dampen c self (Some ui))) k =
             (if k = SITE_DAMP c then Some (VBool False)
              else if k \<in> damp_key ` {0..<24} then ui k else ?d0 k)"
    if "fst (async_step_dampen c self (Some ui)) = Inr Create_entry" for k
  proof -
    from that have x: "extant_missing ?d0 [0..<24] = None" "fst (assign_damp ?d0 ui [0..<24]) = None"
      by (auto simp: async_step_dampen_Some_eq Let_def split: if_splits)
    then have "entry_options (snd (async_step_dampen c self (Some ui)))
                 = (snd (assign_damp ?d0 ui [0..<24]))(SITE_DAMP c \<mapsto> VBool False)"
      by (simp add: async_step_dampen_Some_eq Let_def)
    then show ?thesis
      using assign_damp_result [OF x(2), of k] by simp
  qed
  show ?thesis
  proof (intro conjI impI allI)
    show "(fst (async_step_dampen c self (Some ui)) = Inr Create_entry) =
     ((\<forall>factor<24. ?d0 (damp_key factor) \<noteq> None) \<and> (\<forall>factor<24. ui (damp_key factor) \<noteq> None))"
      by (rule 1)
  next
    assume s: "fst (async_step_dampen c self (Some ui)) = Inr Create_entry"
    from 2 [OF s, of "SITE_DAMP c"]
    show "entry_options (snd (async_step_dampen c self (Some ui))) (SITE_DAMP c) = Some (VBool False)"
      by simp
  next
    fix factor :: nat
    assume s: "fst (async_step_dampen c self (Some ui)) = Inr Create_entry"
      and f: "factor < 24" and n: "damp_key factor \<noteq> SITE_DAMP c"
    from f have "damp_key factor \<in> damp_key ` {0..<24}" by simp
    with 2 [OF s, of "damp_key factor"] n
    show "entry_options (snd (async_step_dampen c self (Some ui))) (damp_key factor)
            = ui (damp_key factor)"
      by simp
  next
    fix k
    assume s: "fst (async_step_dampen c self (Some ui)) = Inr Create_entry"
      and k: "k \<noteq> SITE_DAMP c \<and> k \<notin> damp_key ` {0..<24}"
    with 2 [OF s, of k]
    show "entry_options (snd (async_step_dampen c self (Some ui))) k = ?d0 k"
      by simp
  qed
qed


lemma damp_key_not_site_damp: "factor < 24 \<Longrightarrow> damp_key factor \<noteq> SITE_DAMP example_names"
  using names_apart_damp [OF names_apart_example, of factor]
  by (auto simp: option_names_def)

theorem dampen_step_sets_slots_and_clears_flag_witness:
  "fst (async_step_dampen example_names
          (new_options_flow (default_damp(''site_damp'' \<mapsto> VBool True))) (Some default_damp))
     = Inr Create_entry \<and>
   list_all (\<lambda>factor.
       entry_options (snd (async_step_dampen example_names
          (new_options_flow (default_damp(''site_damp'' \<mapsto> VBool True))) (Some default_damp)))
         (damp_key factor) = Some (VFloat 1)) [0..<24] \<and>
   entry_options (snd (async_step_dampen example_names
          (new_options_flow (default_damp(''site_damp'' \<mapsto> VBool True))) (Some default_damp)))
     ''site_damp'' = Some (VBool False)"
proof -
  let ?s = "new_options_flow (default_damp(''site_damp'' \<mapsto> VBool True))"
  note inst = dampen_step_sets_slots_and_clears_flag [of example_names ?s default_damp]
  have n: "SITE_DAMP example_names = ''site_damp''" by (simp add: example_names_def)
  have stored: "\<forall>factor<24. (case self_all_config_data ?s of None \<Rightarrow> self_options ?s | Some d \<Rightarrow> d)
                      (damp_key factor) \<noteq> None"
    using damp_key_not_site_damp by (simp add: new_options_flow_def default_damp_slot n)
  have given: "\<forall>factor<24. default_damp (damp_key factor) \<noteq> None"
    by (simp add: default_damp_slot)
  from inst stored given
  have A: "fst (async_step_dampen example_names ?s (Some default_damp)) = Inr Create_entry"
    by blast
  with inst have "\<forall>factor<24. damp_key factor \<noteq> SITE_DAMP example_names \<longrightarrow>
         entry_options (snd (async_step_dampen example_names ?s (Some default_damp))) (damp_key factor)
           = default_damp (damp_key factor)"
    by blast
  then have "\<forall>factor\<in>set [0..<24].
         entry_options (snd (async_step_dampen example_names ?s (Some default_damp))) (damp_key factor)
           = Some (VFloat 1)"
    using damp_key_not_site_damp by (simp add: default_damp_slot)
  then have B: "list_all (\<lambda>factor.
       entry_options (snd (async_step_dampen example_names ?s (Some default_damp)))
         (damp_key factor) = Some (VFloat 1)) [0..<24]"
    unfolding list_all_iff .
  from inst A
  have "entry_options (snd (async_step_dampen example_names ?s (Some default_damp)))
          (SITE_DAMP example_names) = Some (VBool False)"
    by blast
  then have C: "entry_options (snd (async_step_dampen example_names ?s (Some default_damp)))
     ''site_damp'' = Some (VBool False)"
    by (simp add: n)
  from A B C show ?thesis by (intro conjI)
qed

section \<open>Numeric tokens that are not decimal\<close>

text \<open>The quota loop on a list whose first tokens are valid.\<close>

lemma check_quota_valid_prefix:
  "list_all valid_quota pre \<Longrightarrow> check_quota (pre @ rest) = check_quota rest"
  by (induction pre) (auto simp: valid_quota_def split: sum.splits)

lemma validate_api_limit_outcomes:
  assumes "tokens (api_quota ui) = pre @ rest" and "list_all valid_quota pre"
  shows "(rest = [] \<and> length pre \<le> api_count \<longrightarrow>
            validate_api_limit ui api_count = Inr (join_comma pre, None)) \<and>
         (rest = [] \<and> api_count < length pre \<longrightarrow>
            validate_api_limit ui api_count
              = Inr ([], Some ''There are more API limit counts entered than keys'')) \<and>
         (\<forall>q post. rest = q # post \<and> \<not> isnumeric q \<longrightarrow>
            validate_api_limit ui api_count = Inr ([], Some ''API limit is not a number'')) \<and>
         (\<forall>q post n. rest = q # post \<and> isnumeric q \<and> py_int q = Inr n \<and> n < 1 \<longrightarrow>
            validate_api_limit ui api_count = Inr ([], Some ''API limit must be one or greater'')) \<and>
         (\<forall>q post e. rest = q # post \<and> isnumeric q \<and> py_int q = Inl e \<longrightarrow>
            validate_api_limit ui api_count = Inl e)"
  using assms check_quota_valid_prefix [of pre rest]
  by (auto simp: validate_api_limit_def Let_def)

lemma async_step_user_quota_raise:
  "current_entries cf = [] \<Longrightarrow> validate_api_key vi = (key, n, None) \<Longrightarrow>
   validate_api_limit vi n = Inl e \<Longrightarrow> async_step_user c cf (Some vi) = (Inl e, cf)"
  by (simp add: async_step_user_def)

lemma init_submit_hard_raise:
  "validate_api_key ui = (key, n, None) \<Longrightarrow> validate_api_limit ui n = Inr (quota, None) \<Longrightarrow>
   1 \<le> custom_hour_sensor ui \<Longrightarrow> custom_hour_sensor ui \<le> 144 \<Longrightarrow>
   hard_limit_loop (split_comma (hard_limit ui)) [] = Raised e \<Longrightarrow>
   init_submit c self ui = (Inl e, self)"
  by (simp add: init_submit_hard_limit)

lemma async_step_init_raise:
  "init_submit c self ui = (Inl e, self') \<Longrightarrow>
   async_step_init c self (Some ui) = (Show_form ''init'' (Some (Exception_text e)), self')"
  by (simp add: async_step_init_Some)

text \<open>
  C4. The quota validator on the quota field made of the one character U+00B2
  (superscript two):
  \<open>isnumeric\<close> holds of the token, \<open>int\<close> raises on it, and the exception leaves
  \<open>validate_api_limit\<close> and the initial setup step; the main options step shows its form
  again with the text of the exception.
\<close>

theorem validate_api_limit_raises_on_superscript_two:
  "isnumeric [CHR 0xB2] \<and>
   validate_api_limit \<lparr>api_key = ''key1'', api_quota = [CHR 0xB2], auto_update = Update_none\<rparr> 1
     = Inl ValueError \<and>
   async_step_user c \<lparr>current_entries = []\<rparr>
       (Some \<lparr>api_key = ''key1'', api_quota = [CHR 0xB2], auto_update = Update_none\<rparr>)
     = (Inl ValueError, \<lparr>current_entries = []\<rparr>) \<and>
   async_step_init c self (Some (example_input ''key1'' [CHR 0xB2] 1 ''100''))
     = (Show_form ''init'' (Some (Exception_text ValueError)), self)"
proof -
  let ?v = "\<lparr>api_key = ''key1'', api_quota = [CHR 0xB2], auto_update = Update_none\<rparr>"
  have n: "isnumeric [CHR 0xB2]" by code_simp
  have k: "validate_api_key ?v = (''key1'', 1, None)" by code_simp
  have q: "validate_api_limit ?v 1 = Inl ValueError" by code_simp
  have q': "validate_api_limit (example_input ''key1'' [CHR 0xB2] 1 ''100'') 1 = Inl ValueError"
    by code_simp
  have u: "async_step_user c \<lparr>current_entries = []\<rparr> (Some ?v)
             = (Inl ValueError, \<lparr>current_entries = []\<rparr>)"
    by (rule async_step_user_quota_raise [OF _ k q]) simp
  have i: "async_step_init c self (Some (example_input ''key1'' [CHR 0xB2] 1 ''100''))
     = (Show_form ''init'' (Some (Exception_text ValueError)), self)"
    by (rule async_step_init_raise [OF init_submit_quota_raise [OF example_input_key1 q']])
  from n q u i show ?thesis by (intro conjI)
qed

text \<open>
  C5. The hard limit \<open>5,7.25\<close> is normalised to \<open>5.0,7.2\<close>. On the hard limit made of
  the one character U+00B2 (superscript two) the test \<open>isdigit\<close> passes and \<open>float\<close>
  raises: the step does not abort with the non-numeric reason but shows its form again
  with the text of the exception.
\<close>

theorem hard_limit_superscript_two_not_rejected:
  "hard_limit_loop (split_comma ''5,7.25'') [] = Proceed [''5.0'', ''7.2''] \<and>
   join_comma [''5.0'', ''7.2''] = ''5.0,7.2'' \<and>
   isdigit (remove1 (CHR ''.'') (strip [CHR 0xB2])) \<and>
   hard_limit_loop (split_comma [CHR 0xB2]) [] = Raised ValueError \<and>
   async_step_init c self (Some (example_input ''key1'' ''10'' 1 [CHR 0xB2]))
     = (Show_form ''init'' (Some (Exception_text ValueError)), self)"
proof -
  have a: "hard_limit_loop (split_comma ''5,7.25'') [] = Proceed [''5.0'', ''7.2'']" by code_simp
  have b: "join_comma [''5.0'', ''7.2''] = ''5.0,7.2''" by simp
  have d: "isdigit (remove1 (CHR ''.'') (strip [CHR 0xB2]))" by code_simp
  have r: "hard_limit_loop (split_comma [CHR 0xB2]) [] = Raised ValueError" by code_simp
  have r': "hard_limit_loop (split_comma (hard_limit (example_input ''key1'' ''10'' 1 [CHR 0xB2]))) []
              = Raised ValueError"
    by (simp add: example_input_def) code_simp
  have h: "1 \<le> custom_hour_sensor (example_input ''key1'' ''10'' 1 [CHR 0xB2])"
    "custom_hour_sensor (example_input ''key1'' ''10'' 1 [CHR 0xB2]) \<le> 144"
    by (simp_all add: example_input_def)
  have i: "async_step_init c self (Some (example_input ''key1'' ''10'' 1 [CHR 0xB2]))
     = (Show_form ''init'' (Some (Exception_text ValueError)), self)"
    by (rule async_step_init_raise
          [OF init_submit_hard_raise [OF example_input_key1 example_input_quota10 h r']])
  from a b d r i show ?thesis by (intro conjI)
qed

text \<open>A hard limit of 309 digits \<open>9\<close> is beyond the largest double: \<open>float\<close> gives
  infinity, which prints without a fractional digit.\<close>

lemma hard_limit_overflow_prints_inf:
  "hard_limit_loop [replicate 309 (CHR ''9'')] [] = Proceed [''inf'']"
  by code_simp

text \<open>
  C1. A submission whose quota is the one character U+00BD (vulgar fraction one half) is
  not numeric for \<open>int\<close>, yet neither step aborts with a reason: \<open>isnumeric\<close> holds of the
  token, \<open>int\<close> raises, the exception leaves the initial setup step, and the main options
  step shows its form again with the text of the exception. The same happens in the main
  options step for the hard limit made of the one character U+00B3 (superscript three),
  of which \<open>isdigit\<close> holds and on which \<open>float\<close> raises. In each case nothing is stored:
  the state is unchanged.
\<close>

theorem non_decimal_submission_is_not_aborted:
  "isnumeric [CHR 0xBD] \<and> py_int [CHR 0xBD] = Inl ValueError \<and>
   async_step_user c \<lparr>current_entries = []\<rparr>
       (Some \<lparr>api_key = ''key1'', api_quota = [CHR 0xBD], auto_update = Update_none\<rparr>)
     = (Inl ValueError, \<lparr>current_entries = []\<rparr>) \<and>
   async_step_init c self (Some (example_input ''key1'' [CHR 0xBD] 1 ''100''))
     = (Show_form ''init'' (Some (Exception_text ValueError)), self) \<and>
   isdigit (remove1 (CHR ''.'') (strip [CHR 0xB3])) \<and> py_float [CHR 0xB3] = Inl ValueError \<and>
   async_step_init c self (Some (example_input ''key1'' ''10'' 1 [CHR 0xB3]))
     = (Show_form ''init'' (Some (Exception_text ValueError)), self)"
proof -
  let ?v = "\<lparr>api_key = ''key1'', api_quota = [CHR 0xBD], auto_update = Update_none\<rparr>"
  have n: "isnumeric [CHR 0xBD]" by code_simp
  have p: "py_int [CHR 0xBD] = Inl ValueError" by code_simp
  have k: "validate_api_key ?v = (''key1'', 1, None)" by code_simp
  have q: "validate_api_limit ?v 1 = Inl ValueError" by code_simp
  have q': "validate_api_limit (example_input ''key1'' [CHR 0xBD] 1 ''100'') 1 = Inl ValueError"
    by code_simp
  have u: "async_step_user c \<lparr>current_entries = []\<rparr> (Some ?v)
             = (Inl ValueError, \<lparr>current_entries = []\<rparr>)"
    by (rule async_step_user_quota_raise [OF _ k q]) simp
  have i: "async_step_init c self (Some (example_input ''key1'' [CHR 0xBD] 1 ''100''))
     = (Show_form ''init'' (Some (Exception_text ValueError)), self)"
    by (rule async_step_init_raise [OF init_submit_quota_raise [OF example_input_key1 q']])
  have d: "isdigit (remove1 (CHR ''.'') (strip [CHR 0xB3]))" by code_simp
  have f: "py_float [CHR 0xB3] = Inl ValueError" by code_simp
  have r: "hard_limit_loop (split_comma (hard_limit (example_input ''key1'' ''10'' 1 [CHR 0xB3]))) []
              = Raised ValueError"
    by (simp add: example_input_def) code_simp
  have h: "1 \<le> custom_hour_sensor (example_input ''key1'' ''10'' 1 [CHR 0xB3])"
    "custom_hour_sensor (example_input ''key1'' ''10'' 1 [CHR 0xB3]) \<le> 144"
    by (simp_all add: example_input_def)
  have j: "async_step_init c self (Some (example_input ''key1'' ''10'' 1 [CHR 0xB3]))
     = (Show_form ''init'' (Some (Exception_text ValueError)), self)"
    by (rule async_step_init_raise
          [OF init_submit_hard_raise [OF example_input_key1 example_input_quota10 h r]])
  from n p u i d f j show ?thesis by (intro conjI)
qed

end
